(* ===== verification/Py_Prelude.thy ===== *)
theory Py_Prelude
  imports Main "HOL-Library.AList"
begin

text \<open>
  The prelude of the development: the model of the Python values and string primitives
  that the handlers of \<open>src/facilescrivere/app.py\<close> use. A Python \<open>str\<close> is a sequence
  of Unicode code points, so a string of the model is a list of natural numbers
  (\<open>pystr\<close>), and \<open>len\<close> counts code points. The Unicode character database that
  \<open>str.lower\<close> and the regular expression class \<open>\w\<close> consult is an interface, the
  record \<open>ucd\<close>; \<open>ucd_wf\<close> collects the facts of that database the proofs rely on,
  and \<open>latin1_ucd\<close> is an instance that agrees with CPython on U+0000..U+00FF and on
  the symbols that occur in the source's tables. The whitespace of \<open>str.split\<close> and
  \<open>str.strip\<close> is a fixed finite set and is modelled exactly (\<open>py_isspace\<close>).
\<close>

named_theorems py_str_simps "characteristic equations of the Python string primitives"
named_theorems py_eval "definitions unfolded to evaluate the model on concrete strings"

type_synonym cp = nat
type_synonym pystr = "cp list"

definition str_lit :: "string \<Rightarrow> pystr" where
  "str_lit s = map of_char s"

text \<open>\<open>str.isspace\<close> (CPython's \<open>Py_UNICODE_ISSPACE\<close>), the separators of \<open>str.split()\<close>.\<close>

definition py_isspace :: "cp \<Rightarrow> bool" where
  "py_isspace c \<longleftrightarrow>
     (9 \<le> c \<and> c \<le> 13) \<or> (28 \<le> c \<and> c \<le> 32) \<or> c = 0x85 \<or> c = 0xA0 \<or> c = 0x1680 \<or>
     (0x2000 \<le> c \<and> c \<le> 0x200A) \<or> c = 0x2028 \<or> c = 0x2029 \<or> c = 0x202F \<or> c = 0x205F \<or>
     c = 0x3000"

text \<open>
  Splitting at every code point that satisfies \<open>p\<close>, keeping empty fields: this is
  \<open>s.split(sep)\<close> for a one-character separator (\<open>line.split(' ')\<close>,
  \<open>content.split('\n')\<close>).
\<close>

definition cons_field :: "cp \<Rightarrow> pystr list \<Rightarrow> pystr list" where
  "cons_field c ws = (c # hd ws) # tl ws"

fun split_when :: "(cp \<Rightarrow> bool) \<Rightarrow> pystr \<Rightarrow> pystr list" where
  "split_when p [] = [[]]"
| "split_when p (c # cs) = (if p c then [] # split_when p cs else cons_field c (split_when p cs))"

definition py_split_sep :: "cp \<Rightarrow> pystr \<Rightarrow> pystr list" where
  "py_split_sep sep s = split_when (\<lambda>c. c = sep) s"

text \<open>\<open>s.split()\<close>: runs of whitespace separate, and no field is empty.\<close>

definition py_split :: "pystr \<Rightarrow> pystr list" where
  "py_split s = filter (\<lambda>w. w \<noteq> []) (split_when py_isspace s)"

text \<open>\<open>s.strip()\<close>: leading and trailing whitespace removed.\<close>

definition py_strip :: "pystr \<Rightarrow> pystr" where
  "py_strip s = rev (dropWhile py_isspace (rev (dropWhile py_isspace s)))"

text \<open>\<open>sep.join(ws)\<close>, used to state what the code's output reconstructs.\<close>

fun py_join :: "pystr \<Rightarrow> pystr list \<Rightarrow> pystr" where
  "py_join sep [] = []"
| "py_join sep [w] = w"
| "py_join sep (w # ws) = w @ sep @ py_join sep ws"

text \<open>
  The Unicode database interface and Python's \<open>str.lower\<close> and \<open>\w\<close> over it.
  \<open>py_lower\<close> maps every code point through the full lower-case mapping of the
  database, one code point at a time. CPython has one rule that depends on the context:
  a capital sigma at the end of a word lowers to the final sigma U+03C2 instead of
  U+03C3. That rule is not expressed; it changes one letter into another letter, never
  a letter into whitespace, so the facts \<open>ucd_wf\<close> the proofs use hold for it too,
  and the instance \<open>latin1_ucd\<close> has no sigma.
\<close>

record ucd =
  ucd_lower :: "cp \<Rightarrow> pystr"
  ucd_isalnum :: "cp \<Rightarrow> bool"

definition py_lower :: "ucd \<Rightarrow> pystr \<Rightarrow> pystr" where
  "py_lower db s = concat (map (ucd_lower db) s)"

definition re_word :: "ucd \<Rightarrow> cp \<Rightarrow> bool" where
  "re_word db c \<longleftrightarrow> ucd_isalnum db c \<or> c = 95"

definition ascii_lower :: "cp \<Rightarrow> cp" where
  "ascii_lower c = (if 65 \<le> c \<and> c \<le> 90 then c + 32 else c)"

definition ascii_alnum :: "cp \<Rightarrow> bool" where
  "ascii_alnum c \<longleftrightarrow> (48 \<le> c \<and> c \<le> 57) \<or> (65 \<le> c \<and> c \<le> 90) \<or> (97 \<le> c \<and> c \<le> 122)"

text \<open>
  Facts of the Unicode database (every CPython 3 release): no case mapping involves
  whitespace, ASCII behaves as ASCII, and the symbols U+221A, U+00AE, U+00A9, U+2264 and
  U+2020 that occur in the correction table are not alphanumeric.
\<close>

definition ucd_wf :: "ucd \<Rightarrow> bool" where
  "ucd_wf db \<longleftrightarrow>
     (\<forall>c. py_isspace c \<longrightarrow> ucd_lower db c = [c]) \<and>
     (\<forall>c. \<not> py_isspace c \<longrightarrow> ucd_lower db c \<noteq> [] \<and> (\<forall>d \<in> set (ucd_lower db c). \<not> py_isspace d)) \<and>
     (\<forall>c < 128. ucd_lower db c = [ascii_lower c] \<and> (ucd_isalnum db c \<longleftrightarrow> ascii_alnum c)) \<and>
     (\<forall>c \<in> {0x221A, 0xAE, 0xA9, 0x2264, 0x2020}. \<not> ucd_isalnum db c)"

definition latin1_upper :: "cp \<Rightarrow> bool" where
  "latin1_upper c \<longleftrightarrow> (65 \<le> c \<and> c \<le> 90) \<or> (0xC0 \<le> c \<and> c \<le> 0xDE \<and> c \<noteq> 0xD7)"

definition latin1_alnum :: "cp \<Rightarrow> bool" where
  "latin1_alnum c \<longleftrightarrow> ascii_alnum c \<or> c \<in> {0xAA, 0xB2, 0xB3, 0xB5, 0xB9, 0xBA, 0xBC, 0xBD, 0xBE} \<or>
     (0xC0 \<le> c \<and> c \<le> 0xFF \<and> c \<noteq> 0xD7 \<and> c \<noteq> 0xF7)"

definition latin1_ucd :: ucd where
  "latin1_ucd = \<lparr>ucd_lower = (\<lambda>c. [if latin1_upper c then c + 32 else c]),
                 ucd_isalnum = latin1_alnum\<rparr>"

lemma py_isspace_space_newline [simp, py_str_simps]: "py_isspace 32" "py_isspace 10"
  by (simp_all add: py_isspace_def)

lemma cons_field_Cons [simp, py_str_simps]: "cons_field c (w # ws) = (c # w) # ws"
  by (simp add: cons_field_def)

lemma split_when_not_Nil [simp]: "split_when p s \<noteq> []"
  by (cases s) (simp_all add: cons_field_def)

lemma split_when_fields:
  "w \<in> set (split_when p s) \<Longrightarrow> c \<in> set w \<Longrightarrow> \<not> p c"
proof (induction s arbitrary: w)
  case Nil
  then show ?case by simp
next
  case (Cons x xs)
  obtain v vs where vv: "split_when p xs = v # vs"
    using split_when_not_Nil by (cases "split_when p xs") auto
  with Cons.prems Cons.IH [of v] Cons.IH show ?case
    by (auto split: if_splits)
qed

lemma py_join_split_when:
  "\<forall>x \<in> set s. p x \<longrightarrow> x = sep \<Longrightarrow> py_join [sep] (split_when p s) = s"
proof (induction s)
  case Nil
  then show ?case by simp
next
  case (Cons c cs)
  then have IH: "py_join [sep] (split_when p cs) = cs" by simp
  obtain w ws where ww: "split_when p cs = w # ws"
    using split_when_not_Nil by (cases "split_when p cs") auto
  show ?case
  proof (cases "p c")
    case True
    with Cons.prems have "c = sep" by simp
    with True IH ww show ?thesis by (cases ws) simp_all
  next
    case False
    with IH ww show ?thesis by (cases ws) simp_all
  qed
qed

lemma py_strip_id:
  assumes "s = [] \<or> (\<not> py_isspace (hd s) \<and> \<not> py_isspace (last s))"
  shows "py_strip s = s"
proof (cases s rule: rev_cases)
  case Nil
  then show ?thesis by (simp add: py_strip_def)
next
  case (snoc ys y)
  with assms have "dropWhile py_isspace s = s"
    by (cases ys) simp_all
  moreover from snoc assms have "dropWhile py_isspace (rev s) = rev s"
    by simp
  ultimately show ?thesis by (simp add: py_strip_def)
qed

lemma py_strip_append_space:
  assumes sp: "\<forall>c \<in> set sp. py_isspace c"
  shows "py_strip (s @ sp) = py_strip s"
proof (cases "\<forall>c \<in> set s. py_isspace c")
  case True
  with sp have e1: "dropWhile py_isspace s = []" and e2: "dropWhile py_isspace (s @ sp) = []"
    by (simp_all add: dropWhile_eq_Nil_conv)
  show ?thesis by (simp only: py_strip_def e1 e2)
next
  case False
  then obtain c where "c \<in> set s" and "\<not> py_isspace c" by blast
  then have "dropWhile py_isspace (s @ sp) = dropWhile py_isspace s @ sp"
    by (rule dropWhile_append1)
  moreover have "dropWhile py_isspace (rev sp @ ys) = dropWhile py_isspace ys" for ys
    using sp by (intro dropWhile_append2) simp
  ultimately show ?thesis by (simp add: py_strip_def)
qed

lemmas [py_eval] = str_lit_def py_isspace_def py_split_def py_split_sep_def py_strip_def
  re_word_def ascii_lower_def ascii_alnum_def latin1_upper_def latin1_alnum_def latin1_ucd_def

lemma latin1_ucd_wf: "ucd_wf latin1_ucd"
  unfolding ucd_wf_def latin1_ucd_def
  by (auto simp: latin1_upper_def py_isspace_def ascii_lower_def ascii_alnum_def latin1_alnum_def)

lemma split_when_append_nosep:
  "\<forall>x \<in> set xs. \<not> p x \<Longrightarrow>
   split_when p (xs @ ys) = (xs @ hd (split_when p ys)) # tl (split_when p ys)"
  by (induction xs) (auto simp: cons_field_def)

lemma py_lower_simps [simp, py_str_simps]:
  "py_lower db [] = []"
  "py_lower db (c # cs) = ucd_lower db c @ py_lower db cs"
  by (simp_all add: py_lower_def)

lemma py_lower_Nil_iff:
  "ucd_wf db \<Longrightarrow> \<forall>c \<in> set w. \<not> py_isspace c \<Longrightarrow> py_lower db w = [] \<longleftrightarrow> w = []"
  by (cases w) (auto simp: ucd_wf_def)

lemma split_when_py_lower:
  assumes "ucd_wf db"
  shows "split_when py_isspace (py_lower db s) = map (py_lower db) (split_when py_isspace s)"
proof (induction s)
  case Nil
  then show ?case by simp
next
  case (Cons c cs)
  obtain w ws where ww: "split_when py_isspace cs = w # ws"
    using split_when_not_Nil by (cases "split_when py_isspace cs") auto
  show ?case
  proof (cases "py_isspace c")
    case True
    with assms Cons.IH show ?thesis by (simp add: ucd_wf_def)
  next
    case False
    with assms have "\<forall>d \<in> set (ucd_lower db c). \<not> py_isspace d"
      by (simp add: ucd_wf_def)
    then have "split_when py_isspace (ucd_lower db c @ py_lower db cs) =
        (ucd_lower db c @ hd (split_when py_isspace (py_lower db cs)))
          # tl (split_when py_isspace (py_lower db cs))"
      by (rule split_when_append_nosep)
    with False Cons.IH ww show ?thesis by simp
  qed
qed

lemma py_split_py_lower:
  assumes "ucd_wf db"
  shows "py_split (py_lower db s) = map (py_lower db) (py_split s)"
proof -
  have "filter (\<lambda>w. w \<noteq> []) (map (py_lower db) ws) = map (py_lower db) (filter (\<lambda>w. w \<noteq> []) ws)"
    if "\<forall>w \<in> set ws. \<forall>c \<in> set w. \<not> py_isspace c" for ws
    using that assms by (induction ws) (auto simp: py_lower_Nil_iff)
  moreover have "\<forall>w \<in> set (split_when py_isspace s). \<forall>c \<in> set w. \<not> py_isspace c"
    by (blast dest: split_when_fields)
  ultimately show ?thesis
    using assms by (simp add: py_split_def split_when_py_lower)
qed

lemma length_py_split_py_lower:
  "ucd_wf db \<Longrightarrow> length (py_split (py_lower db s)) = length (py_split s)"
  by (simp add: py_split_py_lower)

lemma foldl_append_concat [simp]:
  "foldl (\<lambda>acc x. acc @ f x) a xs = a @ concat (map f xs)"
  by (induction xs arbitrary: a) simp_all

lemma split_when_subset:
  "w \<in> set (split_when p s) \<Longrightarrow> set w \<subseteq> set s"
proof (induction s arbitrary: w)
  case Nil
  then show ?case by simp
next
  case (Cons x xs)
  obtain v vs where vv: "split_when p xs = v # vs"
    using split_when_not_Nil by (cases "split_when p xs") auto
  have "set v \<subseteq> set xs" and "\<forall>u \<in> set vs. set u \<subseteq> set xs"
    using Cons.IH vv by auto
  with Cons.prems vv show ?case
    by (auto split: if_splits)
qed

lemma py_split_all_space:
  "\<forall>c \<in> set s. py_isspace c \<Longrightarrow> py_split s = []"
proof -
  assume sp: "\<forall>c \<in> set s. py_isspace c"
  have "w = []" if w: "w \<in> set (split_when py_isspace s)" for w
  proof (rule ccontr)
    assume "w \<noteq> []"
    then obtain c where c: "c \<in> set w" by (cases w) auto
    with w have "\<not> py_isspace c" by (rule split_when_fields)
    moreover from w c have "c \<in> set s" using split_when_subset by blast
    ultimately show False using sp by blast
  qed
  then show ?thesis by (simp add: py_split_def filter_empty_conv)
qed

lemma sum_list_map_le:
  "(\<And>x. f x \<le> k) \<Longrightarrow> sum_list (map f xs) \<le> k * length xs"
  by (induction xs) (auto simp: add_mono)

lemma py_join_append:
  "xs \<noteq> [] \<Longrightarrow> ys \<noteq> [] \<Longrightarrow> py_join sep (xs @ ys) = py_join sep xs @ sep @ py_join sep ys"
proof (induction xs)
  case Nil
  then show ?case by simp
next
  case (Cons x xs)
  then show ?case by (cases xs; cases ys) simp_all
qed

lemma py_join_Nil_iff:
  "\<forall>w \<in> set ws. w \<noteq> [] \<Longrightarrow> py_join sep ws = [] \<longleftrightarrow> ws = []"
  by (induction sep ws rule: py_join.induct) simp_all

lemma py_join_hd_last:
  assumes "ws \<noteq> []" and "\<forall>w \<in> set ws. w \<noteq> []"
  shows "hd (py_join sep ws) = hd (hd ws) \<and> last (py_join sep ws) = last (last ws)"
  using assms
proof (induction sep ws rule: py_join.induct)
  case (3 sep w v vs)
  then show ?case by (simp add: py_join_Nil_iff)
qed simp_all

lemma py_strip_py_join:
  assumes "ws \<noteq> []" and "\<forall>w \<in> set ws. w \<noteq> [] \<and> (\<forall>c \<in> set w. \<not> py_isspace c)"
  shows "py_strip (py_join sep ws) = py_join sep ws"
proof (rule py_strip_id)
  from assms have "hd ws \<in> set ws" and "last ws \<in> set ws" by simp_all
  with assms have "\<not> py_isspace (hd (hd ws)) \<and> \<not> py_isspace (last (last ws))"
    by (metis hd_in_set last_in_set)
  with assms py_join_hd_last [of ws sep]
  show "py_join sep ws = [] \<or> \<not> py_isspace (hd (py_join sep ws)) \<and> \<not> py_isspace (last (py_join sep ws))"
    by auto
qed

lemma length_py_strip: "length (py_strip s) \<le> length s"
  by (simp add: py_strip_def length_dropWhile_le order_trans [OF length_dropWhile_le])

lemma split_when_no_sep:
  "\<forall>c \<in> set s. \<not> p c \<Longrightarrow> split_when p s = [s]"
  by (induction s) simp_all

lemma length_py_join_replicate:
  "0 < n \<Longrightarrow> length (py_join [sep] (replicate n w)) = n * length w + (n - 1)"
proof (induction n)
  case (Suc n)
  then show ?case by (cases n) simp_all
qed simp

lemma split_when_py_join:
  assumes "p sep" and "ws \<noteq> []" and "\<forall>w \<in> set ws. \<forall>c \<in> set w. \<not> p c"
  shows "split_when p (py_join [sep] ws) = ws"
  using assms(2,3)
proof (induction ws)
  case (Cons w ws)
  show ?case
  proof (cases ws)
    case Nil
    with Cons.prems show ?thesis by (simp add: split_when_no_sep)
  next
    case (Cons v vs)
    have "split_when p (w @ [sep] @ py_join [sep] ws) =
        (w @ hd (split_when p ([sep] @ py_join [sep] ws)))
          # tl (split_when p ([sep] @ py_join [sep] ws))"
      using Cons.prems by (intro split_when_append_nosep) simp
    with Cons.IH Cons.prems assms(1) \<open>ws = v # vs\<close> show ?thesis by simp
  qed
qed simp

lemma set_py_join_subset:
  "set (py_join sep ws) \<subseteq> set sep \<union> (\<Union>w \<in> set ws. set w)"
proof (induction ws)
  case (Cons w ws)
  then show ?case by (cases ws) auto
qed simp

lemma py_strip_snoc_space [simp, py_str_simps]: "py_strip (s @ [32]) = py_strip s"
  by (rule py_strip_append_space) simp

lemma map_filter_append:
  "List.map_filter f (xs @ ys) = List.map_filter f xs @ List.map_filter f ys"
  by (induction xs) (simp_all add: List.map_filter_simps split: option.splits)

end
