(* ===== verification/Grammar_Checker.thy ===== *)
theory Grammar_Checker
  imports Py_Prelude
begin

text \<open>
  The suggestion engine: class \<open>GrammarChecker\<close> of \<open>src/facilescrivere/app.py\<close>
  (lines 24--83). Its state is the two dictionaries built by \<open>__init__\<close>, modelled as
  association lists in the source's order (the keys are distinct, so \<open>map_of\<close> is the
  dictionary lookup); \<open>check_text\<close> is the loop over the enumerated lower-cased words,
  with the token step \<open>token_suggestions\<close> and the regular-expression clean-up
  \<open>re_clean\<close>. A suggestion, a Python dictionary with five keys, is a record.

  The table strings are the source's code points: the accented letters of the source are
  stored as the two-character sequences \<open>\<surd>\<registered>\<close> (U+221A U+00AE) and the like, the
  UTF-8 bytes of the Italian letters read in the Mac Roman encoding.
\<close>

abbreviation mac_e_grave :: pystr where "mac_e_grave \<equiv> [0x221A, 0xAE]"
abbreviation mac_e_acute :: pystr where "mac_e_acute \<equiv> [0x221A, 0xA9]"
abbreviation mac_o_grave :: pystr where "mac_o_grave \<equiv> [0x221A, 0x2264]"
abbreviation mac_a_grave :: pystr where "mac_a_grave \<equiv> [0x221A, 0x2020]"
abbreviation mac_u_grave :: pystr where "mac_u_grave \<equiv> [0x221A, 0x3C0]"

datatype suggestion_type = Spelling | Formality

record suggestion_entry =
  stype :: suggestion_type
  original :: pystr
  suggestion :: pystr
  position :: nat
  explanation :: pystr

record grammar_checker =
  corrections :: "(pystr \<times> pystr) list"
  formal_suggestions :: "(pystr \<times> pystr) list"

definition init_grammar_checker :: grammar_checker where
  "init_grammar_checker =
    \<lparr>corrections =
       [(str_lit ''qual '' @ mac_e_grave, str_lit ''qual '' @ mac_e_grave),
        (str_lit ''qual'' @ mac_e_grave, str_lit ''qual '' @ mac_e_grave),
        (str_lit ''qualcos'' @ mac_e_grave, str_lit ''qualcos'' @ [39] @ mac_e_grave),
        (str_lit ''perch'' @ mac_e_grave, str_lit ''perch'' @ mac_e_acute),
        (str_lit ''perch'' @ mac_e_acute, str_lit ''perch'' @ mac_e_acute),
        (str_lit ''per'' @ mac_o_grave, str_lit ''per'' @ mac_o_grave),
        (str_lit ''citt'' @ mac_a_grave, str_lit ''citt'' @ mac_a_grave),
        (str_lit ''universit'' @ mac_a_grave, str_lit ''universit'' @ mac_a_grave),
        (str_lit ''felicit'' @ mac_a_grave, str_lit ''felicit'' @ mac_a_grave),
        (str_lit ''attivit'' @ mac_a_grave, str_lit ''attivit'' @ mac_a_grave),
        (str_lit ''societ'' @ mac_a_grave, str_lit ''societ'' @ mac_a_grave)],
     formal_suggestions =
       [(str_lit ''ciao'', str_lit ''saluti''),
        (str_lit ''hey'', str_lit ''gentile signore/signora''),
        (str_lit ''ok'', str_lit ''d'' @ [39] @ str_lit ''accordo''),
        (str_lit ''grazie mille'', str_lit ''la ringrazio sentitamente''),
        (str_lit ''ti scrivo'', str_lit ''le scrivo''),
        (str_lit ''puoi'', str_lit ''pu'' @ mac_o_grave),
        (str_lit ''vuoi'', str_lit ''desidera'')]\<rparr>"

text \<open>\<open>re.sub(r'[^\w\']', '', word)\<close>: keep the word characters and the apostrophe.\<close>

definition re_clean :: "ucd \<Rightarrow> pystr \<Rightarrow> pystr" where
  "re_clean db word = filter (\<lambda>c. re_word db c \<or> c = 39) word"

definition spelling_explanation :: pystr where
  "spelling_explanation = str_lit ''Correzione ortografica suggerita''"

definition formality_explanation :: pystr where
  "formality_explanation = str_lit ''Suggerimento per linguaggio pi'' @ mac_u_grave @ str_lit '' formale''"

text \<open>One iteration of the loop of \<open>check_text\<close>: the two independent lookups.\<close>

definition token_suggestions :: "ucd \<Rightarrow> grammar_checker \<Rightarrow> nat \<times> pystr \<Rightarrow> suggestion_entry list" where
  "token_suggestions db gc iw =
     (case iw of (i, word) \<Rightarrow>
       let clean_word = re_clean db word in
       (case map_of (corrections gc) clean_word of
          None \<Rightarrow> []
        | Some s \<Rightarrow> [\<lparr>stype = Spelling, original = word, suggestion = s, position = i,
                      explanation = spelling_explanation\<rparr>]) @
       (case map_of (formal_suggestions gc) clean_word of
          None \<Rightarrow> []
        | Some s \<Rightarrow> [\<lparr>stype = Formality, original = word, suggestion = s, position = i,
                      explanation = formality_explanation\<rparr>]))"

definition check_text :: "ucd \<Rightarrow> grammar_checker \<Rightarrow> pystr \<Rightarrow> suggestion_entry list" where
  "check_text db gc text =
     (let words = py_split (py_lower db text)
      in foldl (\<lambda>suggestions iw. suggestions @ token_suggestions db gc iw) [] (enumerate 0 words))"

lemma check_text_concat:
  "check_text db gc text =
     concat (map (token_suggestions db gc) (enumerate 0 (py_split (py_lower db text))))"
  by (simp add: check_text_def)

lemmas [py_eval] = check_text_def token_suggestions_def re_clean_def init_grammar_checker_def

lemma set_token_suggestions_position:
  "s \<in> set (token_suggestions db gc (i, w)) \<Longrightarrow> position s = i"
  by (auto simp: token_suggestions_def Let_def split: option.splits)

lemma sorted_token_suggestions: "sorted (map position (token_suggestions db gc (i, w)))"
  by (simp add: token_suggestions_def Let_def split: option.splits)

lemma length_token_suggestions: "length (token_suggestions db gc iw) \<le> 2"
  by (cases iw) (simp add: token_suggestions_def Let_def split: option.splits)

lemma filter_token_suggestions:
  "filter (\<lambda>s. position s = i) (token_suggestions db gc (j, w)) =
     (if j = i then token_suggestions db gc (j, w) else [])"
  by (auto simp: filter_id_conv filter_empty_conv dest: set_token_suggestions_position)

lemma concat_enumerate_select:
  "concat (map (\<lambda>p. if fst p = i then f p else []) (enumerate n ws)) =
     (if n \<le> i \<and> i < n + length ws then f (i, ws ! (i - n)) else [])"
proof (induction ws arbitrary: n)
  case Nil
  then show ?case by auto
next
  case (Cons w ws)
  show ?case
  proof (cases "n = i")
    case True
    with Cons.IH [of "Suc n"] show ?thesis by simp
  next
    case False
    with Cons.IH [of "Suc n"] show ?thesis
      by (auto simp: nth_Cons' Suc_diff_Suc less_Suc_eq_le)
  qed
qed

lemma re_clean_excludes:
  "\<not> ucd_isalnum db c \<Longrightarrow> c \<noteq> 95 \<Longrightarrow> c \<noteq> 39 \<Longrightarrow> c \<notin> set (re_clean db w)"
  by (simp add: re_clean_def re_word_def)

lemma map_of_None_if_key_has:
  "(\<forall>k \<in> fst ` set al. c \<in> set k) \<Longrightarrow> c \<notin> set x \<Longrightarrow> map_of al x = None"
  by (auto simp: map_of_eq_None_iff)

lemma corrections_unreachable:
  assumes "ucd_wf db"
  shows "map_of (corrections init_grammar_checker) (re_clean db w) = None"
proof (rule map_of_None_if_key_has [where c = "0x221A"])
  show "\<forall>k \<in> fst ` set (corrections init_grammar_checker). 0x221A \<in> set k"
    by (simp add: init_grammar_checker_def)
  from assms show "0x221A \<notin> set (re_clean db w)"
    by (intro re_clean_excludes) (simp_all add: ucd_wf_def)
qed

lemma space_not_in_re_clean:
  "ucd_wf db \<Longrightarrow> 32 \<notin> set (re_clean db w)"
  by (intro re_clean_excludes) (simp_all add: ucd_wf_def ascii_alnum_def)

lemma filter_position_check_text:
  "filter (\<lambda>s. position s = i) (check_text db gc text) =
     (let ws = py_split (py_lower db text)
      in if i < length ws then token_suggestions db gc (i, ws ! i) else [])"
proof -
  let ?ws = "py_split (py_lower db text)"
  have "filter (\<lambda>s. position s = i) (check_text db gc text) =
      concat (map (\<lambda>p. if fst p = i then token_suggestions db gc p else []) (enumerate 0 ?ws))"
    unfolding check_text_concat filter_concat map_map
    by (intro arg_cong [where f = concat] map_cong) (auto simp: filter_token_suggestions)
  then show ?thesis by (simp add: concat_enumerate_select Let_def)
qed

lemma check_text_positions:
  "s \<in> set (check_text db gc text) \<Longrightarrow> position s < length (py_split (py_lower db text))"
  by (auto simp: check_text_concat in_set_enumerate_eq dest!: set_token_suggestions_position)

lemma sorted_check_text_positions:
  "sorted (map position (check_text db gc text))"
proof -
  have "sorted (map position (concat (map (token_suggestions db gc) (enumerate n ws))))" for n ws
  proof (induction ws arbitrary: n)
    case Nil
    then show ?case by simp
  next
    case (Cons w ws)
    have "position s = n" if "s \<in> set (token_suggestions db gc (n, w))" for s
      using that by (rule set_token_suggestions_position)
    moreover have "n < position s"
      if "s \<in> set (concat (map (token_suggestions db gc) (enumerate (Suc n) ws)))" for s
      using that by (auto simp: in_set_enumerate_eq dest!: set_token_suggestions_position)
    ultimately show ?case
      using Cons.IH [of "Suc n"] sorted_token_suggestions [of db gc n w]
      by (auto simp: sorted_append intro: order.strict_implies_order)
  qed
  then show ?thesis by (simp add: check_text_concat)
qed

text \<open>
  C1. For every checker state and every input, the suggestions that \<open>check_text\<close>
  reports at token position \<open>i\<close> are exactly the spelling suggestion for the cleaned
  \<open>i\<close>-th lower-cased word, if the correction table has it, followed by the formality
  suggestion, if the formality table has it; each carries the lower-cased word, the
  table's value, the position and the fixed explanation of its kind.
\<close>

theorem check_text_token_spec:
  assumes "i < length (py_split (py_lower db text))"
  shows "filter (\<lambda>s. position s = i) (check_text db gc text) =
     (let w = py_split (py_lower db text) ! i; cw = re_clean db w in
      (case map_of (corrections gc) cw of
         None \<Rightarrow> []
       | Some v \<Rightarrow> [\<lparr>stype = Spelling, original = w, suggestion = v, position = i,
                     explanation = spelling_explanation\<rparr>]) @
      (case map_of (formal_suggestions gc) cw of
         None \<Rightarrow> []
       | Some v \<Rightarrow> [\<lparr>stype = Formality, original = w, suggestion = v, position = i,
                     explanation = formality_explanation\<rparr>]))"
  using assms by (simp add: filter_position_check_text token_suggestions_def Let_def)

theorem check_text_token_spec_witness:
  "0 < length (py_split (py_lower latin1_ucd (str_lit ''Ciao!''))) \<and>
   filter (\<lambda>s. position s = 0) (check_text latin1_ucd init_grammar_checker (str_lit ''Ciao!'')) =
     [\<lparr>stype = Formality, original = str_lit ''ciao!'', suggestion = str_lit ''saluti'',
       position = 0, explanation = formality_explanation\<rparr>]"
proof -
  have h: "0 < length (py_split (py_lower latin1_ucd (str_lit ''Ciao!'')))"
    by (simp add: py_eval)
  show ?thesis
    using h check_text_token_spec [OF h, of init_grammar_checker]
    by (simp add: py_eval)
qed

text \<open>
  C2. With the tables that \<open>GrammarChecker.__init__\<close> builds, \<open>check_text\<close> never
  reports a spelling suggestion: every key of \<open>corrections\<close> contains U+221A, which
  the clean-up \<open>re.sub(r'[^\w\']', '', word)\<close> always removes.
\<close>

theorem check_text_never_spelling:
  assumes "ucd_wf db" and "s \<in> set (check_text db init_grammar_checker text)"
  shows "stype s = Formality"
  using assms
  by (auto simp: check_text_concat token_suggestions_def corrections_unreachable Let_def
           split: option.splits)

theorem check_text_never_spelling_witness:
  "ucd_wf latin1_ucd \<and>
   hd (check_text latin1_ucd init_grammar_checker (str_lit ''ok'')) \<in>
     set (check_text latin1_ucd init_grammar_checker (str_lit ''ok'')) \<and>
   stype (hd (check_text latin1_ucd init_grammar_checker (str_lit ''ok''))) = Formality"
proof -
  have ne: "check_text latin1_ucd init_grammar_checker (str_lit ''ok'') \<noteq> []"
    by (simp add: py_eval)
  show ?thesis
    using latin1_ucd_wf ne check_text_never_spelling [OF latin1_ucd_wf, of _ "str_lit ''ok''"]
    by simp
qed

text \<open>
  C3. With the tables of \<open>__init__\<close>, a token yields a suggestion exactly when its
  cleaned form is one of \<open>ciao\<close>, \<open>hey\<close>, \<open>ok\<close>, \<open>puoi\<close>, \<open>vuoi\<close>: the
  correction keys are unreachable (C2) and the two-word formality keys
  \<open>grazie mille\<close> and \<open>ti scrivo\<close> contain a space, which no cleaned word does.
\<close>

theorem token_suggestions_init_trigger:
  assumes "ucd_wf db"
  shows "token_suggestions db init_grammar_checker (i, w) \<noteq> [] \<longleftrightarrow>
     re_clean db w \<in> {str_lit ''ciao'', str_lit ''hey'', str_lit ''ok'', str_lit ''puoi'', str_lit ''vuoi''}"
proof -
  let ?cw = "re_clean db w"
  have no_space: "32 \<notin> set ?cw"
    using assms by (rule space_not_in_re_clean)
  have "?cw \<noteq> str_lit ''grazie mille''" and "?cw \<noteq> str_lit ''ti scrivo''"
    using no_space by (auto simp: str_lit_def)
  then have "map_of (formal_suggestions init_grammar_checker) ?cw \<noteq> None \<longleftrightarrow>
      ?cw \<in> {str_lit ''ciao'', str_lit ''hey'', str_lit ''ok'', str_lit ''puoi'', str_lit ''vuoi''}"
    by (auto simp: init_grammar_checker_def map_of_eq_None_iff)
  then show ?thesis
    using corrections_unreachable [OF assms, of w]
    by (auto simp: token_suggestions_def Let_def split: option.splits)
qed

theorem token_suggestions_init_trigger_witness:
  "ucd_wf latin1_ucd \<and>
   token_suggestions latin1_ucd init_grammar_checker (0, str_lit ''hey,'') \<noteq> [] \<and>
   re_clean latin1_ucd (str_lit ''hey,'') = str_lit ''hey''"
proof -
  have "re_clean latin1_ucd (str_lit ''hey,'') = str_lit ''hey''"
    by (simp add: py_eval)
  with token_suggestions_init_trigger [OF latin1_ucd_wf, of 0 "str_lit ''hey,''"] latin1_ucd_wf
  show ?thesis by simp
qed

text \<open>
  C4. \<open>check_text\<close> reports at most two suggestions per whitespace-separated word of
  the input, whatever the tables.
\<close>

theorem check_text_length_bound:
  assumes "ucd_wf db"
  shows "length (check_text db gc text) \<le> 2 * length (py_split text)"
proof -
  have "length (check_text db gc text) =
      sum_list (map (\<lambda>iw. length (token_suggestions db gc iw)) (enumerate 0 (py_split (py_lower db text))))"
    by (simp add: check_text_concat length_concat comp_def)
  also have "\<dots> \<le> 2 * length (enumerate 0 (py_split (py_lower db text)))"
    by (rule sum_list_map_le) (rule length_token_suggestions)
  finally show ?thesis
    using assms by (simp add: length_py_split_py_lower)
qed

theorem check_text_length_bound_witness:
  "ucd_wf latin1_ucd \<and>
   length (check_text latin1_ucd init_grammar_checker (str_lit ''ok ciao'')) \<le>
     2 * length (py_split (str_lit ''ok ciao''))"
  using latin1_ucd_wf check_text_length_bound [OF latin1_ucd_wf] by simp

text \<open>
  C5. The suggestions come in token order, and every position is the index of a word
  of the input, so it is below the \<open>word_count\<close> (\<open>len(text.split())\<close>) that
  \<open>check_grammar\<close> reports beside them.
\<close>

theorem check_text_positions_ordered:
  assumes "ucd_wf db"
  shows "sorted (map position (check_text db gc text)) \<and>
     (\<forall>s \<in> set (check_text db gc text). position s < length (py_split text))"
proof -
  have "position s < length (py_split text)" if "s \<in> set (check_text db gc text)" for s
    using check_text_positions [OF that] length_py_split_py_lower [OF assms] by simp
  then show ?thesis using sorted_check_text_positions by blast
qed

theorem check_text_positions_ordered_witness:
  "ucd_wf latin1_ucd \<and>
   sorted (map position (check_text latin1_ucd init_grammar_checker (str_lit ''ok ciao''))) \<and>
   list_all (\<lambda>s. position s < length (py_split (str_lit ''ok ciao'')))
     (check_text latin1_ucd init_grammar_checker (str_lit ''ok ciao''))"
  using latin1_ucd_wf check_text_positions_ordered [OF latin1_ucd_wf]
  by (simp add: list_all_iff)

text \<open>
  C6. A text of whitespace only, the empty text included, yields no suggestion.
\<close>

theorem check_text_blank:
  assumes "ucd_wf db" and "\<forall>c \<in> set text. py_isspace c"
  shows "check_text db gc text = []"
  using assms by (simp add: check_text_concat py_split_py_lower py_split_all_space)

theorem check_text_blank_witness:
  "ucd_wf latin1_ucd \<and> list_all py_isspace (str_lit '' '') \<and>
   check_text latin1_ucd init_grammar_checker (str_lit '' '') = []"
proof -
  have h: "\<forall>c \<in> set (str_lit '' ''). py_isspace c" by (simp add: py_eval)
  show ?thesis
    using latin1_ucd_wf h check_text_blank [OF latin1_ucd_wf h] by (simp add: list_all_iff)
qed

end
