(* ===== verification/Pdf_Export.thy ===== *)
theory Pdf_Export
  imports Py_Prelude
begin

text \<open>
  The pagination engine: the body of handler \<open>export_pdf\<close> of
  \<open>src/facilescrivere/app.py\<close> (lines 284--336). The reportlab canvas is modelled by
  the log of the calls the handler makes on it (\<open>canvas_op\<close>); the loop state is the
  record \<open>pdf_state\<close> of that log and the cursor \<open>y_position\<close> (a Python int, so
  \<open>int\<close>). \<open>draw_line\<close> is a \<open>drawString\<close> followed by \<open>y_position -= 15\<close>,
  \<open>new_page_if_needed\<close> the test of line 305, \<open>wrap_loop\<close> the inner loop over the
  words of a long line, \<open>emit_line\<close> one iteration of the outer loop after the page
  test, \<open>layout_lines\<close> the outer loop and \<open>render_pdf\<close> the whole canvas program.

  \<open>wrap_ref\<close> is the greedy wrap as a pure function returning the lines to draw, and
  \<open>wrapped_lines\<close> the lines one input line becomes; the first lemma group proves that
  the loop with its canvas effects draws exactly these lines, so the remaining
  properties are stated on the pure function.
\<close>

datatype canvas_op =
    SetFont pystr nat
  | DrawString int int pystr
  | ShowPage
  | Save

record pdf_state =
  ops :: "canvas_op list"
  y_position :: int

definition draw_line :: "pystr \<Rightarrow> pdf_state \<Rightarrow> pdf_state" where
  "draw_line s st =
     st\<lparr>ops := ops st @ [DrawString 50 (y_position st) s], y_position := y_position st - 15\<rparr>"

definition new_page_if_needed :: "pdf_state \<Rightarrow> pdf_state" where
  "new_page_if_needed st =
     (if y_position st < 50 then st\<lparr>ops := ops st @ [ShowPage], y_position := 750\<rparr> else st)"

fun wrap_loop :: "pystr list \<Rightarrow> pystr \<times> pdf_state \<Rightarrow> pystr \<times> pdf_state" where
  "wrap_loop [] (current_line, st) = (current_line, st)"
| "wrap_loop (word # words) (current_line, st) =
     (if length (current_line @ word) < 80
      then wrap_loop words (current_line @ word @ [32], st)
      else wrap_loop words (word @ [32], draw_line (py_strip current_line) st))"

definition emit_line :: "pystr \<Rightarrow> pdf_state \<Rightarrow> pdf_state" where
  "emit_line line st =
     (if 80 < length line then
        (case wrap_loop (py_split_sep 32 line) ([], st) of
           (current_line, st') \<Rightarrow>
             if current_line \<noteq> [] then draw_line (py_strip current_line) st' else st')
      else draw_line line st)"

fun layout_lines :: "pystr list \<Rightarrow> pdf_state \<Rightarrow> pdf_state" where
  "layout_lines [] st = st"
| "layout_lines (line # lines) st = layout_lines lines (emit_line line (new_page_if_needed st))"

definition pdf_start :: "pystr \<Rightarrow> pdf_state" where
  "pdf_start title =
     \<lparr>ops = [SetFont (str_lit ''Helvetica-Bold'') 16, DrawString 50 750 title,
            SetFont (str_lit ''Helvetica'') 12],
      y_position = 720\<rparr>"

definition render_pdf :: "pystr \<Rightarrow> pystr \<Rightarrow> canvas_op list" where
  "render_pdf title content =
     ops (layout_lines (py_split_sep 10 content) (pdf_start title)) @ [Save]"

text \<open>The greedy wrap as a pure function, and the lines one input line becomes.\<close>

fun wrap_ref :: "pystr list \<Rightarrow> pystr \<Rightarrow> pystr list" where
  "wrap_ref [] cur = (if cur \<noteq> [] then [py_strip cur] else [])"
| "wrap_ref (w # ws) cur =
     (if length (cur @ w) < 80 then wrap_ref ws (cur @ w @ [32])
      else py_strip cur # wrap_ref ws (w @ [32]))"

definition wrapped_lines :: "pystr \<Rightarrow> pystr list" where
  "wrapped_lines line = (if 80 < length line then wrap_ref (py_split_sep 32 line) [] else [line])"

definition draw_lines :: "pystr list \<Rightarrow> pdf_state \<Rightarrow> pdf_state" where
  "draw_lines ls st = fold draw_line ls st"

text \<open>
  The margin invariant of the outer loop for lines of at most 80 characters: the cursor
  stays between 35 and 750 and every string drawn so far lies between the margins.
\<close>

definition margin_inv :: "pdf_state \<Rightarrow> bool" where
  "margin_inv st \<longleftrightarrow> 35 \<le> y_position st \<and> y_position st \<le> 750 \<and>
     (\<forall>x y s. DrawString x y s \<in> set (ops st) \<longrightarrow> 50 \<le> y \<and> y \<le> 750)"

text \<open>A line of five 19-character words, 99 characters, used by the witnesses.\<close>

abbreviation sample_line :: pystr where
  "sample_line \<equiv> str_lit ''aaaaaaaaaaaaaaaaaaa bbbbbbbbbbbbbbbbbbb ccccccccccccccccccc ddddddddddddddddddd eeeeeeeeeeeeeeeeeee''"

lemma wrap_loop_draws:
  "(case wrap_loop ws (cur, st) of
      (c, st') \<Rightarrow> if c \<noteq> [] then draw_line (py_strip c) st' else st') =
   draw_lines (wrap_ref ws cur) st"
  by (induction ws arbitrary: cur st) (simp_all add: draw_lines_def)

lemma emit_line_draws_wrapped:
  "emit_line line st = draw_lines (wrapped_lines line) st"
  by (simp add: emit_line_def wrapped_lines_def wrap_loop_draws [of _ "[]", symmetric])
     (simp add: draw_lines_def)

lemma draw_lines_simps [simp]:
  "draw_lines [] st = st"
  "draw_lines (l # ls) st = draw_lines ls (draw_line l st)"
  by (simp_all add: draw_lines_def)

lemma y_position_draw_lines:
  "y_position (draw_lines ls st) = y_position st - 15 * int (length ls)"
proof (induction ls arbitrary: st)
  case Nil
  then show ?case by simp
next
  case (Cons l ls)
  have "y_position (draw_lines ls (draw_line l st)) =
      y_position (draw_line l st) - 15 * int (length ls)"
    by (rule Cons.IH)
  then show ?case by (simp add: draw_line_def algebra_simps)
qed

lemma ops_draw_lines:
  "ops (draw_lines ls st) =
     ops st @ map (\<lambda>(k, s). DrawString 50 (y_position st - 15 * int k) s) (enumerate 0 ls)"
proof (induction ls arbitrary: st)
  case Nil
  then show ?case by simp
next
  case (Cons l ls)
  then show ?case
    by (simp add: draw_line_def enumerate_Suc_eq comp_def case_prod_beta algebra_simps)
qed

lemma flush_width:
  assumes "cur = [] \<or> (length cur \<le> 80 \<and> cur \<noteq> [] \<and> last cur = 32) \<or> (\<exists>w \<in> A. cur = w @ [32])"
  shows "length (py_strip cur) < 80 \<or> (\<exists>w \<in> A. py_strip cur = py_strip w)"
proof -
  consider "cur = []" | "length cur \<le> 80 \<and> cur \<noteq> [] \<and> last cur = 32" | "\<exists>w \<in> A. cur = w @ [32]"
    using assms by blast
  then show ?thesis
  proof cases
    case 1
    then show ?thesis by (simp add: py_strip_def)
  next
    case 2
    then have "cur = butlast cur @ [32]" by (metis append_butlast_last_id)
    then have "py_strip cur = py_strip (butlast cur)"
      using py_strip_snoc_space [of "butlast cur"] by simp
    moreover have "length (py_strip (butlast cur)) < 80"
      using 2 length_py_strip [of "butlast cur"] by (cases cur) auto
    ultimately show ?thesis by simp
  next
    case 3
    then show ?thesis by auto
  qed
qed

lemma wrap_ref_width_gen:
  assumes "cur = [] \<or> (length cur \<le> 80 \<and> cur \<noteq> [] \<and> last cur = 32) \<or> (\<exists>w \<in> A. cur = w @ [32])"
    and "set ws \<subseteq> A" and "s \<in> set (wrap_ref ws cur)"
  shows "length s < 80 \<or> (\<exists>w \<in> A. s = py_strip w)"
  using assms
proof (induction ws arbitrary: cur)
  case Nil
  then show ?case using flush_width [of cur A] by (auto split: if_splits)
next
  case (Cons w ws)
  show ?case
  proof (cases "length (cur @ w) < 80")
    case True
    with Cons.prems have "s \<in> set (wrap_ref ws (cur @ w @ [32]))" by simp
    with True Cons.prems(2) show ?thesis by (intro Cons.IH) auto
  next
    case False
    with Cons.prems(3) have "s = py_strip cur \<or> s \<in> set (wrap_ref ws (w @ [32]))" by simp
    then show ?thesis
    proof
      assume "s = py_strip cur"
      with flush_width [OF Cons.prems(1)] show ?thesis by auto
    next
      assume "s \<in> set (wrap_ref ws (w @ [32]))"
      with Cons.prems(2) show ?thesis by (intro Cons.IH) auto
    qed
  qed
qed

lemma wrap_ref_join_gen:
  assumes "\<forall>w \<in> set (vs @ ws). w \<noteq> [] \<and> (\<forall>c \<in> set w. \<not> py_isspace c)"
  shows "py_join [32] (filter (\<lambda>s. s \<noteq> []) (wrap_ref ws (if vs = [] then [] else py_join [32] vs @ [32])))
           = py_join [32] (vs @ ws)"
  using assms
proof (induction ws arbitrary: vs)
  case Nil
  show ?case
  proof (cases "vs = []")
    case False
    have "py_strip (py_join [32] vs) = py_join [32] vs"
      by (rule py_strip_py_join) (use False Nil.prems in auto)
    then have "py_strip (py_join [32] vs @ [32]) = py_join [32] vs"
      by simp
    moreover from False Nil.prems have "py_join [32] vs \<noteq> []"
      by (simp add: py_join_Nil_iff)
    ultimately show ?thesis using False by simp
  qed simp
next
  case (Cons w ws)
  let ?P = "\<lambda>s::pystr. s \<noteq> []"
  let ?cur = "if vs = [] then [] else py_join [32] vs @ [32]"
  show ?case
  proof (cases "length (?cur @ w) < 80")
    case True
    have eq: "?cur @ w @ [32] = py_join [32] (vs @ [w]) @ [32]"
      using Cons.prems by (auto simp: py_join_append)
    have step: "wrap_ref (w # ws) ?cur = wrap_ref ws (py_join [32] (vs @ [w]) @ [32])"
      by (simp only: wrap_ref.simps(2) if_P [OF True] eq)
    have "py_join [32] (filter ?P (wrap_ref ws (py_join [32] (vs @ [w]) @ [32]))) =
        py_join [32] (vs @ w # ws)"
      using Cons.IH [of "vs @ [w]"] Cons.prems by simp
    then show ?thesis unfolding step by simp
  next
    case False
    have step: "wrap_ref (w # ws) ?cur = py_strip ?cur # wrap_ref ws (w @ [32])"
      by (simp only: wrap_ref.simps(2) if_not_P [OF False])
    let ?rest = "filter ?P (wrap_ref ws (w @ [32]))"
    have IH: "py_join [32] ?rest = py_join [32] (w # ws)"
      using Cons.IH [of "[w]"] Cons.prems by auto
    have ne: "py_join [32] (w # ws) \<noteq> []" using Cons.prems by (simp add: py_join_Nil_iff)
    show ?thesis
    proof (cases "vs = []")
      case True
      with IH show ?thesis unfolding step by (simp add: py_strip_def)
    next
      case vs: False
      have "py_strip (py_join [32] vs) = py_join [32] vs"
        by (rule py_strip_py_join) (use vs Cons.prems in auto)
      with vs have strip: "py_strip ?cur = py_join [32] vs"
        by simp
      from vs Cons.prems have nej: "py_join [32] vs \<noteq> []" by (simp add: py_join_Nil_iff)
      have rest: "?rest \<noteq> []" using IH ne by auto
      have "py_join [32] (filter ?P (wrap_ref (w # ws) ?cur)) = py_join [32] (py_join [32] vs # ?rest)"
        unfolding step strip using nej by simp
      also have "\<dots> = py_join [32] vs @ [32] @ py_join [32] ?rest"
        using rest by (cases ?rest) simp_all
      also have "\<dots> = py_join [32] (vs @ w # ws)"
        using vs IH by (simp add: py_join_append)
      finally show ?thesis .
    qed
  qed
qed

lemma wrapped_lines_long:
  "80 < length line \<Longrightarrow> wrapped_lines line = wrap_ref (py_split_sep 32 line) []"
  by (simp add: wrapped_lines_def)

text \<open>
  C7. One iteration of the outer loop (lines 309--325), inner word loop and final flush
  included, appends to the canvas exactly one \<open>drawString(50, y, s)\<close> per line
  \<open>s\<close> of the greedy wrap \<open>wrapped_lines line\<close>, at the cursor minus 15 per line
  already drawn, and lowers the cursor by 15 per line.
\<close>

theorem emit_line_canvas:
  "ops (emit_line line st) =
     ops st @ map (\<lambda>(k, s). DrawString 50 (y_position st - 15 * int k) s)
                  (enumerate 0 (wrapped_lines line)) \<and>
   y_position (emit_line line st) = y_position st - 15 * int (length (wrapped_lines line))"
  by (simp add: emit_line_draws_wrapped ops_draw_lines y_position_draw_lines)

text \<open>
  C8. A line the wrap produces from a line longer than 80 characters is shorter than 80
  characters, unless it is a single word of the line (stripped) that does not fit.
\<close>

theorem wrapped_lines_width:
  assumes "80 < length line" and "s \<in> set (wrapped_lines line)"
  shows "length s < 80 \<or> (\<exists>w \<in> set (py_split_sep 32 line). s = py_strip w)"
  using assms wrap_ref_width_gen [of "[]" "set (py_split_sep 32 line)" "py_split_sep 32 line" s]
  by (simp add: wrapped_lines_long)

theorem wrapped_lines_width_witness:
  "80 < length sample_line \<and> hd (wrapped_lines sample_line) \<in> set (wrapped_lines sample_line) \<and>
   (length (hd (wrapped_lines sample_line)) < 80 \<or>
    (\<exists>w \<in> set (py_split_sep 32 sample_line). hd (wrapped_lines sample_line) = py_strip w))"
proof -
  have h: "80 < length sample_line" by (simp add: py_eval)
  have ne: "wrapped_lines sample_line \<noteq> []"
    by (simp add: py_eval wrapped_lines_def)
  then have m: "hd (wrapped_lines sample_line) \<in> set (wrapped_lines sample_line)" by simp
  show ?thesis using h m wrapped_lines_width [OF h m] by blast
qed

text \<open>
  C9. For a long line whose words are separated by single spaces and contain no other
  whitespace, joining the non-empty drawn lines with single spaces gives the line back:
  the wrap drops and duplicates no character.
\<close>

theorem wrapped_lines_rejoin:
  assumes "80 < length line"
    and "\<forall>w \<in> set (py_split_sep 32 line). w \<noteq> [] \<and> (\<forall>c \<in> set w. \<not> py_isspace c)"
  shows "py_join [32] (filter (\<lambda>s. s \<noteq> []) (wrapped_lines line)) = line"
proof -
  have "py_join [32] (filter (\<lambda>s. s \<noteq> []) (wrap_ref (py_split_sep 32 line) [])) =
      py_join [32] (py_split_sep 32 line)"
    using wrap_ref_join_gen [of "[]" "py_split_sep 32 line"] assms(2) by simp
  also have "\<dots> = line"
    by (simp add: py_split_sep_def py_join_split_when)
  finally show ?thesis using assms(1) by (simp add: wrapped_lines_long)
qed

theorem wrapped_lines_rejoin_witness:
  "80 < length sample_line \<and>
   list_all (\<lambda>w. w \<noteq> [] \<and> list_all (\<lambda>c. \<not> py_isspace c) w) (py_split_sep 32 sample_line) \<and>
   py_join [32] (filter (\<lambda>s. s \<noteq> []) (wrapped_lines sample_line)) = sample_line"
proof -
  have h1: "80 < length sample_line" by (simp add: py_eval)
  have h2: "\<forall>w \<in> set (py_split_sep 32 sample_line). w \<noteq> [] \<and> (\<forall>c \<in> set w. \<not> py_isspace c)"
    by (simp add: py_eval)
  then have h3: "list_all (\<lambda>w. w \<noteq> [] \<and> list_all (\<lambda>c. \<not> py_isspace c) w) (py_split_sep 32 sample_line)"
    by (simp only: list_all_iff)
  show ?thesis
    using h1 h3 wrapped_lines_rejoin [OF h1 h2] by blast
qed

text \<open>
  C10. A line longer than 80 characters with no space in it is not wrapped: the wrap
  draws an empty line first and then the whole line, so a 200-character word gives two
  drawn lines, the second of 200 characters.
\<close>

theorem wrapped_lines_unbroken:
  assumes "80 < length w" and "32 \<notin> set w"
  shows "wrapped_lines w = [[], py_strip w]"
proof -
  from assms(2) have "py_split_sep 32 w = [w]"
    by (auto simp: py_split_sep_def intro: split_when_no_sep)
  with assms(1) show ?thesis
    using py_strip_snoc_space [of w]
    by (simp add: wrapped_lines_long py_strip_def)
qed

theorem wrapped_lines_unbroken_witness:
  "80 < length (replicate 200 (97::nat)) \<and> 32 \<notin> set (replicate 200 (97::nat)) \<and>
   wrapped_lines (replicate 200 97) = [[], replicate 200 97]"
proof -
  have h1: "80 < length (replicate 200 (97::nat))" by simp
  have h2: "32 \<notin> set (replicate 200 (97::nat))" by simp
  have "py_strip (replicate 200 (97::nat)) = replicate 200 97"
    by (rule py_strip_id) (simp add: py_isspace_def)
  then show ?thesis using h1 h2 wrapped_lines_unbroken [OF h1 h2] by simp
qed

lemma emit_line_short:
  "length line \<le> 80 \<Longrightarrow> emit_line line st = draw_line line st"
  by (simp add: emit_line_def)

lemma margin_inv_step:
  assumes "margin_inv st" and "length line \<le> 80"
  shows "margin_inv (emit_line line (new_page_if_needed st))"
  using assms
  by (auto simp: margin_inv_def emit_line_short new_page_if_needed_def draw_line_def)

lemma margin_inv_layout_lines:
  "margin_inv st \<Longrightarrow> \<forall>l \<in> set ls. length l \<le> 80 \<Longrightarrow> margin_inv (layout_lines ls st)"
  by (induction ls arbitrary: st) (simp_all add: margin_inv_step)

lemma margin_inv_pdf_start: "margin_inv (pdf_start title)"
  by (simp add: margin_inv_def pdf_start_def)

text \<open>
  C11. When every line of the content has at most 80 characters, the page test of the
  outer loop keeps every string the export draws, the title included, between the
  bottom margin 50 and the top 750.
\<close>

theorem render_pdf_short_lines_in_margins:
  assumes "\<forall>l \<in> set (py_split_sep 10 content). length l \<le> 80"
    and "DrawString x y s \<in> set (render_pdf title content)"
  shows "50 \<le> y \<and> y \<le> 750"
proof -
  have "margin_inv (layout_lines (py_split_sep 10 content) (pdf_start title))"
    using margin_inv_pdf_start assms(1) by (rule margin_inv_layout_lines)
  with assms(2) show ?thesis by (auto simp: render_pdf_def margin_inv_def)
qed

theorem render_pdf_short_lines_in_margins_witness:
  "list_all (\<lambda>l. length l \<le> 80) (py_split_sep 10 (str_lit ''Gentile Signora,'')) \<and>
   DrawString 50 720 (str_lit ''Gentile Signora,'') \<in> set (render_pdf [] (str_lit ''Gentile Signora,'')) \<and>
   50 \<le> (720::int) \<and> (720::int) \<le> 750"
proof -
  have h1: "\<forall>l \<in> set (py_split_sep 10 (str_lit ''Gentile Signora,'')). length l \<le> 80"
    by (simp add: py_eval)
  have h2: "DrawString 50 720 (str_lit ''Gentile Signora,'') \<in> set (render_pdf [] (str_lit ''Gentile Signora,''))"
    by (simp add: render_pdf_def pdf_start_def emit_line_draws_wrapped wrapped_lines_def
        new_page_if_needed_def draw_line_def py_eval)
  from h1 have h3: "list_all (\<lambda>l. length l \<le> 80) (py_split_sep 10 (str_lit ''Gentile Signora,''))"
    by (simp only: list_all_iff)
  show ?thesis using h2 h3 render_pdf_short_lines_in_margins [OF h1 h2] by blast
qed

lemma wrap_ref_replicate:
  assumes "length w = 79" and "\<forall>c \<in> set w. \<not> py_isspace c"
  shows "wrap_ref (replicate n w) (w @ [32]) = replicate (Suc n) w"
proof -
  have "w \<noteq> []" using assms(1) by auto
  then have "hd w \<in> set w" and "last w \<in> set w" by simp_all
  with assms(2) have strip: "py_strip w = w" by (intro py_strip_id) auto
  show ?thesis
    by (induction n) (simp_all add: strip assms(1))
qed

lemma wrapped_lines_replicate_79:
  assumes "length w = 79" and "\<forall>c \<in> set w. \<not> py_isspace c" and "1 < n"
  shows "wrapped_lines (py_join [32] (replicate n w)) = replicate n w"
proof -
  have long: "80 < length (py_join [32] (replicate n w))"
    using assms by (simp add: length_py_join_replicate)
  have "\<forall>c \<in> set w. c \<noteq> 32" using assms(2) py_isspace_space_newline(1) by blast
  then have words: "py_split_sep 32 (py_join [32] (replicate n w)) = replicate n w"
    unfolding py_split_sep_def using assms(3) by (intro split_when_py_join) auto
  obtain m where n: "n = Suc m" using assms(3) by (cases n) auto
  have "wrap_ref (replicate n w) [] = wrap_ref (replicate m w) (w @ [32])"
    using assms(1) by (simp add: n)
  also have "\<dots> = replicate n w"
    using assms(1,2) by (simp add: wrap_ref_replicate n)
  finally show ?thesis using long words by (simp add: wrapped_lines_long)
qed

text \<open>
  C12. The page test runs once per input line, not per drawn line: a single long line
  of fifty 79-character words is drawn as fifty lines from y = 720 downwards, the last
  at y = -15, below the bottom edge of the page.
\<close>

theorem render_pdf_draws_below_page:
  "\<exists>content y s. DrawString 50 y s \<in> set (render_pdf title content) \<and> y < 0"
proof -
  define w :: pystr where "w = replicate 79 97"
  define ws where "ws = replicate 50 w"
  define content where "content = py_join [32] ws"
  have w: "length w = 79" "\<forall>c \<in> set w. \<not> py_isspace c" "set w = {97}"
    by (simp_all add: w_def py_isspace_def)
  have "set content \<subseteq> {32, 97}"
    using set_py_join_subset [of "[32]" ws] w(3) by (auto simp: content_def ws_def)
  then have lines: "py_split_sep 10 content = [content]"
    by (auto simp: py_split_sep_def intro: split_when_no_sep)
  have wrapped: "wrapped_lines content = ws"
    unfolding content_def ws_def using w by (intro wrapped_lines_replicate_79) simp_all
  have start: "new_page_if_needed (pdf_start title) = pdf_start title"
    by (simp add: new_page_if_needed_def pdf_start_def)
  have r: "render_pdf title content = ops (draw_lines ws (pdf_start title)) @ [Save]"
    unfolding render_pdf_def lines layout_lines.simps start emit_line_draws_wrapped wrapped ..
  let ?f = "\<lambda>(k, s). DrawString 50 (y_position (pdf_start title) - 15 * int k) s"
  have "(49, w) \<in> set (enumerate 0 ws)"
    by (simp add: in_set_enumerate_eq ws_def)
  then have "?f (49, w) \<in> set (map ?f (enumerate 0 ws))"
    by (simp only: set_map) (rule imageI)
  then have "DrawString 50 (-15) w \<in> set (map ?f (enumerate 0 ws))"
    by (simp add: pdf_start_def)
  then have "DrawString 50 (-15) w \<in> set (render_pdf title content)"
    unfolding r ops_draw_lines by simp
  moreover have "(-15::int) < 0" by simp
  ultimately show ?thesis by blast
qed

lemma div_47_step: "Suc ((L::nat) div 47) = (L + 47) div 47"
  by simp

lemma layout_lines_short_pages:
  assumes "\<forall>l \<in> set ls. length l \<le> 80" and "y_position st = 45 + 15 * int k" and "k \<le> 47"
  shows "count_list (ops (layout_lines ls st)) ShowPage =
     count_list (ops st) ShowPage + (if length ls \<le> k then 0 else (length ls - k + 46) div 47)"
  using assms
proof (induction ls arbitrary: st k)
  case Nil
  then show ?case by simp
next
  case (Cons l ls)
  let ?L = "length ls"
  have short: "length l \<le> 80" and rest: "\<forall>l \<in> set ls. length l \<le> 80"
    using Cons.prems(1) by simp_all
  show ?case
  proof (cases k)
    case 0
    let ?st1 = "draw_line l (st\<lparr>ops := ops st @ [ShowPage], y_position := 750\<rparr>)"
    have step: "emit_line l (new_page_if_needed st) = ?st1"
      using Cons.prems(2) 0 short by (simp add: new_page_if_needed_def emit_line_short)
    have "y_position ?st1 = 45 + 15 * int 46" by (simp add: draw_line_def)
    then have "count_list (ops (layout_lines ls ?st1)) ShowPage =
        count_list (ops ?st1) ShowPage + (if ?L \<le> 46 then 0 else (?L - 46 + 46) div 47)"
      using rest by (intro Cons.IH) simp_all
    moreover have "(if ?L \<le> 46 then 0 else (?L - 46 + 46) div 47) = ?L div 47"
      by simp
    ultimately show ?thesis
      using step 0 div_47_step [of ?L] by (simp add: draw_line_def)
  next
    case (Suc j)
    let ?st1 = "draw_line l st"
    have step: "emit_line l (new_page_if_needed st) = ?st1"
      using Cons.prems(2) Suc short by (simp add: new_page_if_needed_def emit_line_short)
    have "y_position ?st1 = 45 + 15 * int j"
      using Cons.prems(2) Suc by (simp add: draw_line_def)
    then have "count_list (ops (layout_lines ls ?st1)) ShowPage =
        count_list (ops ?st1) ShowPage + (if ?L \<le> j then 0 else (?L - j + 46) div 47)"
      using rest Cons.prems(3) Suc by (intro Cons.IH) simp_all
    then show ?thesis
      using step Suc by (simp add: draw_line_def Suc_diff_le)
  qed
qed

text \<open>
  C13. For a content whose lines all have at most 80 characters, the number of
  \<open>showPage\<close> calls, one less than the number of pages of the document, is 0 for at
  most 45 lines (the first page holds the lines at y = 720, 705, \<dots>, 60) and
  \<open>\<lceil>(n - 45) / 47\<rceil>\<close> for \<open>n > 45\<close> lines (every later page holds 47 lines, from 750 to 60).
\<close>

theorem render_pdf_page_breaks:
  assumes "\<forall>l \<in> set (py_split_sep 10 content). length l \<le> 80"
  shows "count_list (render_pdf title content) ShowPage =
     (let n = length (py_split_sep 10 content) in if n \<le> 45 then 0 else (n - 45 + 46) div 47)"
proof -
  have "y_position (pdf_start title) = 45 + 15 * int 45" by (simp add: pdf_start_def)
  with assms have "count_list (ops (layout_lines (py_split_sep 10 content) (pdf_start title))) ShowPage =
      count_list (ops (pdf_start title)) ShowPage +
      (if length (py_split_sep 10 content) \<le> 45 then 0
       else (length (py_split_sep 10 content) - 45 + 46) div 47)"
    by (intro layout_lines_short_pages) simp_all
  then show ?thesis by (simp add: render_pdf_def pdf_start_def Let_def)
qed

theorem render_pdf_page_breaks_witness:
  "list_all (\<lambda>l. length l \<le> 80) (py_split_sep 10 (str_lit ''Caro Mario,\<newline>auguri'')) \<and>
   count_list (render_pdf [] (str_lit ''Caro Mario,\<newline>auguri'')) ShowPage = 0"
proof -
  have h: "\<forall>l \<in> set (py_split_sep 10 (str_lit ''Caro Mario,\<newline>auguri'')). length l \<le> 80"
    by (simp add: py_eval)
  have n: "length (py_split_sep 10 (str_lit ''Caro Mario,\<newline>auguri'')) = 2"
    by (simp add: py_eval)
  from h have l: "list_all (\<lambda>l. length l \<le> 80) (py_split_sep 10 (str_lit ''Caro Mario,\<newline>auguri''))"
    by (simp only: list_all_iff)
  show ?thesis using l render_pdf_page_breaks [OF h] n by simp
qed

end
