(* ===== verification/File_Store.thy ===== *)
theory File_Store
  imports Py_Prelude
begin

text \<open>
  The handlers of \<open>src/facilescrivere/app.py\<close> that keep state: \<open>save_document\<close>
  (lines 256--282) and \<open>user_dictionary\<close> (lines 338--377). Their state is the upload
  folder, modelled as a map \<open>files\<close> from a path to the JSON value the file holds:
  \<open>json.dump\<close> followed by \<open>json.load\<close> gives the value back, so the text of a file
  is not modelled. A request body is what \<open>request.get_json()\<close> returns: a JSON
  object, here with string values (the shape the front end sends), or \<open>None\<close> (the body \<open>null\<close>), on
  which \<open>data.get\<close> raises \<open>AttributeError\<close>. Every uncaught Python exception is a
  value of \<open>py_exc\<close> (Flask answers it with status 500), every JSON answer a status
  and a body. The clock is an input: \<open>save_document\<close> reads \<open>datetime.now()\<close> twice,
  for the id and for \<open>created_at\<close>.
\<close>

datatype json =
    JNull
  | JBool bool
  | JInt int
  | JStr pystr
  | JArr "json list"
  | JObj "(pystr \<times> json) list"

datatype py_exc = AttributeError | KeyError | TypeError

type_synonym files = "pystr \<rightharpoonup> json"
type_synonym request_body = "(pystr \<rightharpoonup> pystr) option"
type_synonym json_response = "py_exc + nat \<times> json"

record datetime =
  year :: nat
  month :: nat
  day :: nat
  hour :: nat
  minute :: nat
  second :: nat
  microsecond :: nat

text \<open>\<open>dict.get(key, default)\<close> on the request object.\<close>

definition py_get :: "(pystr \<rightharpoonup> pystr) \<Rightarrow> pystr \<Rightarrow> pystr \<Rightarrow> pystr" where
  "py_get data key dflt = (case data key of None \<Rightarrow> dflt | Some v \<Rightarrow> v)"

definition upload_folder :: pystr where
  "upload_folder = str_lit ''user_documents''"

text \<open>\<open>os.path.join\<close> of the relative upload folder and a plain file name.\<close>

definition path_join :: "pystr \<Rightarrow> pystr \<Rightarrow> pystr" where
  "path_join d f = d @ [47] @ f"

text \<open>Decimal notation of a natural number, and \<open>%0wd\<close>.\<close>

fun dec_digits :: "nat \<Rightarrow> pystr" where
  "dec_digits n = (if n < 10 then [48 + n] else dec_digits (n div 10) @ [48 + n mod 10])"

definition zpad :: "nat \<Rightarrow> nat \<Rightarrow> pystr" where
  "zpad w n = replicate (w - length (dec_digits n)) 48 @ dec_digits n"

text \<open>
  \<open>now.strftime('%Y%m%d_%H%M%S')\<close>: the C library writes \<open>%Y\<close> without padding and the
  other fields with two digits.
\<close>

definition strftime_id :: "datetime \<Rightarrow> pystr" where
  "strftime_id t =
     dec_digits (year t) @ zpad 2 (month t) @ zpad 2 (day t) @ [95] @
     zpad 2 (hour t) @ zpad 2 (minute t) @ zpad 2 (second t)"

text \<open>\<open>now.isoformat()\<close>: the microseconds are written only when they are not zero.\<close>

definition isoformat :: "datetime \<Rightarrow> pystr" where
  "isoformat t =
     zpad 4 (year t) @ [45] @ zpad 2 (month t) @ [45] @ zpad 2 (day t) @ [84] @
     zpad 2 (hour t) @ [58] @ zpad 2 (minute t) @ [58] @ zpad 2 (second t) @
     (if microsecond t = 0 then [] else [46] @ zpad 6 (microsecond t))"

definition document_path :: "pystr \<Rightarrow> pystr" where
  "document_path doc_id = path_join upload_folder (str_lit ''document_'' @ doc_id @ str_lit ''.json'')"

definition save_document :: "request_body \<Rightarrow> datetime \<Rightarrow> datetime \<Rightarrow> files \<Rightarrow> json_response \<times> files" where
  "save_document body t_id t_created fs =
     (case body of
        None \<Rightarrow> (Inl AttributeError, fs)
      | Some data \<Rightarrow>
          (let title = py_get data (str_lit ''title'') (str_lit ''Documento senza titolo'');
               content = py_get data (str_lit ''content'') [];
               template_used = py_get data (str_lit ''template'') (str_lit ''custom'');
               doc_id = strftime_id t_id;
               document = JObj
                 [(str_lit ''id'', JStr doc_id),
                  (str_lit ''title'', JStr title),
                  (str_lit ''content'', JStr content),
                  (str_lit ''template_used'', JStr template_used),
                  (str_lit ''created_at'', JStr (isoformat t_created)),
                  (str_lit ''word_count'', JInt (int (length (py_split content)))),
                  (str_lit ''character_count'', JInt (int (length content)))]
           in (Inr (200, JObj [(str_lit ''success'', JBool True), (str_lit ''document_id'', JStr doc_id)]),
               fs(document_path doc_id \<mapsto> document))))"

definition dict_path :: pystr where
  "dict_path = path_join upload_folder (str_lit ''user_dictionary.json'')"

definition default_dictionary :: json where
  "default_dictionary = JObj [(str_lit ''words'', JArr []), (str_lit ''phrases'', JArr [])]"

definition load_dictionary :: "files \<Rightarrow> json" where
  "load_dictionary fs = (case fs dict_path of None \<Rightarrow> default_dictionary | Some j \<Rightarrow> j)"

definition user_dictionary_get :: "files \<Rightarrow> json_response" where
  "user_dictionary_get fs = Inr (200, load_dictionary fs)"

text \<open>\<open>needle in hay\<close> for two strings: a contiguous occurrence.\<close>

definition py_str_contains :: "pystr \<Rightarrow> pystr \<Rightarrow> bool" where
  "py_str_contains hay needle =
     list_ex (\<lambda>i. take (length needle) (drop i hay) = needle) [0..<Suc (length hay)]"

text \<open>
  \<open>entry in value\<close>, \<open>value.append(entry)\<close> and \<open>dictionary[key]\<close> for a string
  \<open>entry\<close> and \<open>key\<close> and any JSON \<open>value\<close>, \<open>dictionary\<close>, as Python evaluates
  them: a string equals only an equal string, \<open>in\<close> on a string is a substring test
  and on a dictionary a key test, and the other types raise.
\<close>

fun py_contains :: "json \<Rightarrow> pystr \<Rightarrow> py_exc + bool" where
  "py_contains (JArr xs) e = Inr (JStr e \<in> set xs)"
| "py_contains (JStr s) e = Inr (py_str_contains s e)"
| "py_contains (JObj kvs) e = Inr (e \<in> fst ` set kvs)"
| "py_contains _ e = Inl TypeError"

fun py_append :: "json \<Rightarrow> pystr \<Rightarrow> py_exc + json" where
  "py_append (JArr xs) e = Inr (JArr (xs @ [JStr e]))"
| "py_append _ e = Inl AttributeError"

fun py_subscript :: "json \<Rightarrow> pystr \<Rightarrow> py_exc + json" where
  "py_subscript (JObj kvs) k = (case map_of kvs k of None \<Rightarrow> Inl KeyError | Some v \<Rightarrow> Inr v)"
| "py_subscript _ k = Inl TypeError"

fun json_set :: "json \<Rightarrow> pystr \<Rightarrow> json \<Rightarrow> json" where
  "json_set (JObj kvs) k v = JObj (AList.update k v kvs)"
| "json_set j k v = j"

definition dictionary_ok_body :: "json \<Rightarrow> json" where
  "dictionary_ok_body d = JObj [(str_lit ''success'', JBool True), (str_lit ''dictionary'', d)]"

definition user_dictionary_post :: "request_body \<Rightarrow> files \<Rightarrow> json_response \<times> files" where
  "user_dictionary_post body fs =
     (case body of
        None \<Rightarrow> (Inl AttributeError, fs)
      | Some data \<Rightarrow>
          (let word_type = py_get data (str_lit ''type'') (str_lit ''words'');
               entry = py_get data (str_lit ''entry'') []
           in if entry = [] then
                (Inr (400, JObj [(str_lit ''error'', JStr (str_lit ''No entry provided''))]), fs)
              else
                (let dictionary = load_dictionary fs in
                 case py_subscript dictionary word_type of
                   Inl e \<Rightarrow> (Inl e, fs)
                 | Inr lst \<Rightarrow>
                     (case py_contains lst entry of
                        Inl e \<Rightarrow> (Inl e, fs)
                      | Inr True \<Rightarrow> (Inr (200, dictionary_ok_body dictionary), fs)
                      | Inr False \<Rightarrow>
                          (case py_append lst entry of
                             Inl e \<Rightarrow> (Inl e, fs)
                           | Inr lst' \<Rightarrow>
                               (let dictionary' = json_set dictionary word_type lst'
                                in (Inr (200, dictionary_ok_body dictionary'),
                                    fs(dict_path \<mapsto> dictionary'))))))))"

text \<open>
  The specification side. \<open>dec_val\<close> reads a decimal string back and
  \<open>parse_doc_id\<close> an id \<open>YYYYMMDD_HHMMSS\<close>; \<open>valid_clock\<close> is a reading of
  \<open>datetime.now()\<close> in the years 1000--9999. \<open>wf_dictionary\<close> is the shape of the
  dictionary file that the POST handler writes, \<open>dict_file_ok\<close> the invariant of the
  store, \<open>dict_entries\<close> the abstract dictionary (a list of entries per key) and
  \<open>dict_add\<close> the abstract POST.
\<close>

definition dec_val :: "pystr \<Rightarrow> nat" where
  "dec_val ds = foldl (\<lambda>n d. 10 * n + (d - 48)) 0 ds"

definition is_digit :: "cp \<Rightarrow> bool" where
  "is_digit c \<longleftrightarrow> 48 \<le> c \<and> c \<le> 57"

definition parse_doc_id :: "pystr \<Rightarrow> (nat \<times> nat \<times> nat \<times> nat \<times> nat \<times> nat) option" where
  "parse_doc_id s =
     (if length s = 15 \<and> s ! 8 = 95 \<and> list_all is_digit (take 8 s @ drop 9 s)
      then Some (dec_val (take 4 s), dec_val (take 2 (drop 4 s)), dec_val (take 2 (drop 6 s)),
                 dec_val (take 2 (drop 9 s)), dec_val (take 2 (drop 11 s)), dec_val (drop 13 s))
      else None)"

definition valid_clock :: "datetime \<Rightarrow> bool" where
  "valid_clock t \<longleftrightarrow> 1000 \<le> year t \<and> year t \<le> 9999 \<and> 1 \<le> month t \<and> month t \<le> 12 \<and>
     1 \<le> day t \<and> day t \<le> 31 \<and> hour t < 24 \<and> minute t < 60 \<and> second t < 60 \<and>
     microsecond t < 1000000"

definition same_second :: "datetime \<Rightarrow> datetime \<Rightarrow> bool" where
  "same_second t u \<longleftrightarrow> year t = year u \<and> month t = month u \<and> day t = day u \<and>
     hour t = hour u \<and> minute t = minute u \<and> second t = second u"

fun is_entry :: "json \<Rightarrow> bool" where
  "is_entry (JStr s) = (s \<noteq> [])"
| "is_entry _ = False"

definition wf_entries :: "json list \<Rightarrow> bool" where
  "wf_entries xs \<longleftrightarrow> distinct xs \<and> list_all is_entry xs"

definition wf_dictionary :: "json \<Rightarrow> bool" where
  "wf_dictionary j =
     (case j of
        JObj [(k1, JArr xs), (k2, JArr ys)] \<Rightarrow>
          k1 = str_lit ''words'' \<and> k2 = str_lit ''phrases'' \<and> wf_entries xs \<and> wf_entries ys
      | _ \<Rightarrow> False)"

definition dict_file_ok :: "files \<Rightarrow> bool" where
  "dict_file_ok fs = (case fs dict_path of None \<Rightarrow> True | Some j \<Rightarrow> wf_dictionary j)"

fun entry_str :: "json \<Rightarrow> pystr option" where
  "entry_str (JStr s) = Some s"
| "entry_str _ = None"

definition dict_entries :: "files \<Rightarrow> pystr \<Rightarrow> pystr list" where
  "dict_entries fs k =
     (case py_subscript (load_dictionary fs) k of
        Inr (JArr xs) \<Rightarrow> List.map_filter entry_str xs
      | _ \<Rightarrow> [])"

definition dict_add :: "pystr \<Rightarrow> pystr \<Rightarrow> (pystr \<Rightarrow> pystr list) \<Rightarrow> (pystr \<Rightarrow> pystr list)" where
  "dict_add k e d = d(k := (if e \<in> set (d k) then d k else d k @ [e]))"

lemmas dict_post_defs = user_dictionary_post_def Let_def

lemma wf_dictionary_iff:
  "wf_dictionary d \<longleftrightarrow>
     (\<exists>xs ys. d = JObj [(str_lit ''words'', JArr xs), (str_lit ''phrases'', JArr ys)] \<and>
              wf_entries xs \<and> wf_entries ys)"
  by (auto simp: wf_dictionary_def split: json.splits list.splits prod.splits)

lemma load_dictionary_wf:
  "dict_file_ok fs \<Longrightarrow> wf_dictionary (load_dictionary fs)"
  by (auto simp: dict_file_ok_def load_dictionary_def default_dictionary_def wf_dictionary_def
      wf_entries_def split: option.splits)

lemma words_ne_phrases: "str_lit ''words'' \<noteq> str_lit ''phrases''"
  by (simp add: str_lit_def)

lemma py_subscript_json_set:
  "py_subscript d k = Inr v \<Longrightarrow> py_subscript (json_set d k v') k = Inr v'"
  by (cases d) (auto simp: update_conv' split: option.splits)

lemma py_subscript_json_set_other:
  "py_subscript d k = Inr v \<Longrightarrow> k' \<noteq> k \<Longrightarrow> py_subscript (json_set d k v') k' = py_subscript d k'"
  by (cases d) (auto simp: update_conv' split: option.splits)

lemma py_append_contains:
  "py_append lst e = Inr lst' \<Longrightarrow> py_contains lst' e = Inr True"
  by (cases lst) auto

lemma load_dictionary_upd [simp]: "load_dictionary (fs(dict_path \<mapsto> d)) = d"
  by (simp add: load_dictionary_def)

lemma wf_dictionary_subscript:
  assumes "wf_dictionary d" and "py_subscript d k = Inr v"
  shows "k \<in> {str_lit ''words'', str_lit ''phrases''} \<and> (\<exists>xs. v = JArr xs \<and> wf_entries xs)"
  using assms by (auto simp: wf_dictionary_iff split: if_splits)

lemma wf_dictionary_subscript_key:
  assumes "wf_dictionary d" and "k \<in> {str_lit ''words'', str_lit ''phrases''}"
  shows "\<exists>xs. py_subscript d k = Inr (JArr xs) \<and> wf_entries xs"
  using assms words_ne_phrases by (auto simp: wf_dictionary_iff)

lemma wf_dictionary_json_set:
  assumes "wf_dictionary d" and "k \<in> {str_lit ''words'', str_lit ''phrases''}" and "wf_entries xs"
  shows "wf_dictionary (json_set d k (JArr xs))"
  using assms words_ne_phrases by (auto simp: wf_dictionary_iff)

lemma wf_entries_snoc:
  "wf_entries xs \<Longrightarrow> JStr e \<notin> set xs \<Longrightarrow> e \<noteq> [] \<Longrightarrow> wf_entries (xs @ [JStr e])"
  by (simp add: wf_entries_def)

lemma map_filter_entry_str_mem:
  "e \<in> set (List.map_filter entry_str xs) \<longleftrightarrow> JStr e \<in> set xs"
proof (induction xs)
  case (Cons x xs)
  then show ?case by (cases x) (auto simp: List.map_filter_simps)
qed (simp add: List.map_filter_simps)

text \<open>
  The outcomes of a POST with a non-empty entry on a store that satisfies the invariant:
  the key is \<open>words\<close> or \<open>phrases\<close> and the entry is appended unless present, or the
  key is another one and the handler raises \<open>KeyError\<close>.
\<close>

lemma user_dictionary_post_cases:
  assumes ok: "dict_file_ok fs"
    and t: "py_get data (str_lit ''type'') (str_lit ''words'') = t"
    and e: "py_get data (str_lit ''entry'') [] = e" and ne: "e \<noteq> []"
  shows "(t \<notin> {str_lit ''words'', str_lit ''phrases''} \<and> user_dictionary_post (Some data) fs = (Inl KeyError, fs)) \<or>
     (\<exists>xs. t \<in> {str_lit ''words'', str_lit ''phrases''} \<and>
        py_subscript (load_dictionary fs) t = Inr (JArr xs) \<and> wf_entries xs \<and>
        user_dictionary_post (Some data) fs =
          (if JStr e \<in> set xs then (Inr (200, dictionary_ok_body (load_dictionary fs)), fs)
           else (let d' = json_set (load_dictionary fs) t (JArr (xs @ [JStr e]))
                 in (Inr (200, dictionary_ok_body d'), fs(dict_path \<mapsto> d')))))"
proof (cases "t \<in> {str_lit ''words'', str_lit ''phrases''}")
  case True
  from load_dictionary_wf [OF ok] True obtain xs where
    xs: "py_subscript (load_dictionary fs) t = Inr (JArr xs)" and wf: "wf_entries xs"
    by (blast dest: wf_dictionary_subscript_key)
  with True t e ne show ?thesis by (auto simp: dict_post_defs)
next
  case False
  have "py_subscript (load_dictionary fs) t = Inl KeyError"
  proof -
    from load_dictionary_wf [OF ok] obtain xs ys where
      "load_dictionary fs = JObj [(str_lit ''words'', JArr xs), (str_lit ''phrases'', JArr ys)]"
      by (auto simp: wf_dictionary_iff)
    with False show ?thesis by simp
  qed
  with False t e ne show ?thesis by (simp add: dict_post_defs)
qed

lemma user_dictionary_post_ok:
  assumes ok: "dict_file_ok fs"
  shows "dict_file_ok (snd (user_dictionary_post body fs))"
proof (cases body)
  case None
  with ok show ?thesis by (simp add: dict_post_defs)
next
  case (Some data)
  define t where "t = py_get data (str_lit ''type'') (str_lit ''words'')"
  define e where "e = py_get data (str_lit ''entry'') []"
  show ?thesis
  proof (cases "e = []")
    case True
    with Some ok show ?thesis by (simp add: dict_post_defs e_def)
  next
    case False
    from user_dictionary_post_cases [OF ok t_def [symmetric] e_def [symmetric] False]
    show ?thesis
    proof (elim disjE exE conjE)
      assume "user_dictionary_post (Some data) fs = (Inl KeyError, fs)"
      with Some ok show ?thesis by simp
    next
      fix xs
      assume t: "t \<in> {str_lit ''words'', str_lit ''phrases''}" and wf: "wf_entries xs"
        and r: "user_dictionary_post (Some data) fs =
          (if JStr e \<in> set xs then (Inr (200, dictionary_ok_body (load_dictionary fs)), fs)
           else (let d' = json_set (load_dictionary fs) t (JArr (xs @ [JStr e]))
                 in (Inr (200, dictionary_ok_body d'), fs(dict_path \<mapsto> d'))))"
      have "wf_dictionary (json_set (load_dictionary fs) t (JArr (xs @ [JStr e])))"
        if "JStr e \<notin> set xs"
        using load_dictionary_wf [OF ok] t wf_entries_snoc [OF wf that False]
        by (rule wf_dictionary_json_set)
      with Some ok r show ?thesis by (auto simp: dict_file_ok_def Let_def)
    qed
  qed
qed

lemma document_path_ne_dict_path: "document_path i \<noteq> dict_path"
  by (simp add: document_path_def dict_path_def path_join_def str_lit_def)

lemma save_document_dict_file:
  "snd (save_document body t c fs) dict_path = fs dict_path"
  by (simp add: save_document_def Let_def document_path_ne_dict_path [symmetric] split: option.splits)

lemma user_dictionary_post_entries:
  assumes ok: "dict_file_ok fs"
    and t: "py_get data (str_lit ''type'') (str_lit ''words'') = t"
    and tk: "t \<in> {str_lit ''words'', str_lit ''phrases''}"
    and e: "py_get data (str_lit ''entry'') [] = e" and ne: "e \<noteq> []"
  shows "dict_entries (snd (user_dictionary_post (Some data) fs)) = dict_add t e (dict_entries fs)"
proof -
  from user_dictionary_post_cases [OF ok t e ne] tk obtain xs where
    sub: "py_subscript (load_dictionary fs) t = Inr (JArr xs)" and
    r: "user_dictionary_post (Some data) fs =
          (if JStr e \<in> set xs then (Inr (200, dictionary_ok_body (load_dictionary fs)), fs)
           else (let d' = json_set (load_dictionary fs) t (JArr (xs @ [JStr e]))
                 in (Inr (200, dictionary_ok_body d'), fs(dict_path \<mapsto> d'))))"
    by blast
  have Dt: "dict_entries fs t = List.map_filter entry_str xs"
    using sub by (simp add: dict_entries_def)
  show ?thesis
  proof (cases "JStr e \<in> set xs")
    case True
    then have "e \<in> set (dict_entries fs t)" by (simp add: Dt map_filter_entry_str_mem)
    with True r show ?thesis by (simp add: dict_add_def)
  next
    case False
    let ?d' = "json_set (load_dictionary fs) t (JArr (xs @ [JStr e]))"
    have "dict_entries (fs(dict_path \<mapsto> ?d')) k = dict_add t e (dict_entries fs) k" for k
    proof (cases "k = t")
      case True
      with sub False show ?thesis
        by (simp add: dict_entries_def dict_add_def py_subscript_json_set Dt
            map_filter_entry_str_mem List.map_filter_simps map_filter_append)
    next
      case other: False
      with sub show ?thesis
        by (simp add: dict_entries_def dict_add_def py_subscript_json_set_other)
    qed
    with False r show ?thesis by (simp add: Let_def fun_eq_iff)
  qed
qed

text \<open>
  C14. On a store whose dictionary file has the shape the handler writes, a POST of a
  non-empty entry under the key \<open>words\<close> or \<open>phrases\<close> answers 200 with the
  dictionary now stored, and changes the abstract dictionary exactly as
  \<open>dict_add\<close>: the entry is appended to its list unless it is already there.
\<close>

theorem user_dictionary_post_refines:
  assumes ok: "dict_file_ok fs"
    and t: "py_get data (str_lit ''type'') (str_lit ''words'') = t"
    and tk: "t \<in> {str_lit ''words'', str_lit ''phrases''}"
    and e: "py_get data (str_lit ''entry'') [] = e" and ne: "e \<noteq> []"
  shows "fst (user_dictionary_post (Some data) fs) =
           Inr (200, dictionary_ok_body (load_dictionary (snd (user_dictionary_post (Some data) fs)))) \<and>
         dict_entries (snd (user_dictionary_post (Some data) fs)) = dict_add t e (dict_entries fs)"
proof -
  from user_dictionary_post_cases [OF ok t e ne] tk obtain xs where
    r: "user_dictionary_post (Some data) fs =
          (if JStr e \<in> set xs then (Inr (200, dictionary_ok_body (load_dictionary fs)), fs)
           else (let d' = json_set (load_dictionary fs) t (JArr (xs @ [JStr e]))
                 in (Inr (200, dictionary_ok_body d'), fs(dict_path \<mapsto> d'))))"
    by blast
  then have "fst (user_dictionary_post (Some data) fs) =
      Inr (200, dictionary_ok_body (load_dictionary (snd (user_dictionary_post (Some data) fs))))"
    by (simp add: Let_def)
  with user_dictionary_post_entries [OF ok t tk e ne] show ?thesis by blast
qed

theorem user_dictionary_post_refines_witness:
  "dict_file_ok Map.empty \<and>
   py_get [str_lit ''entry'' \<mapsto> str_lit ''ciao''] (str_lit ''type'') (str_lit ''words'') = str_lit ''words'' \<and>
   str_lit ''words'' \<in> {str_lit ''words'', str_lit ''phrases''} \<and>
   py_get [str_lit ''entry'' \<mapsto> str_lit ''ciao''] (str_lit ''entry'') [] = str_lit ''ciao'' \<and>
   str_lit ''ciao'' \<noteq> [] \<and>
   dict_entries (snd (user_dictionary_post (Some [str_lit ''entry'' \<mapsto> str_lit ''ciao'']) Map.empty)) =
     dict_add (str_lit ''words'') (str_lit ''ciao'') (dict_entries Map.empty)"
proof -
  have h1: "dict_file_ok Map.empty" by (simp add: dict_file_ok_def)
  have h2: "py_get [str_lit ''entry'' \<mapsto> str_lit ''ciao''] (str_lit ''type'') (str_lit ''words'') = str_lit ''words''"
    by (simp add: py_get_def str_lit_def)
  have h3: "str_lit ''words'' \<in> {str_lit ''words'', str_lit ''phrases''}" by simp
  have h4: "py_get [str_lit ''entry'' \<mapsto> str_lit ''ciao''] (str_lit ''entry'') [] = str_lit ''ciao''"
    by (simp add: py_get_def)
  have h5: "str_lit ''ciao'' \<noteq> []" by (simp add: str_lit_def)
  show ?thesis
    using h1 h2 h3 h4 h5 user_dictionary_post_refines [OF h1 h2 h3 h4 h5] by blast
qed

text \<open>
  C15. On such a store a POST of a non-empty entry under any other key raises
  \<open>KeyError\<close> (an HTTP 500) and leaves the store unchanged.
\<close>

theorem user_dictionary_post_unknown_type:
  assumes ok: "dict_file_ok fs"
    and t: "py_get data (str_lit ''type'') (str_lit ''words'') = t"
    and tk: "t \<notin> {str_lit ''words'', str_lit ''phrases''}"
    and e: "py_get data (str_lit ''entry'') [] = e" and ne: "e \<noteq> []"
  shows "user_dictionary_post (Some data) fs = (Inl KeyError, fs)"
  using user_dictionary_post_cases [OF ok t e ne] tk by blast

theorem user_dictionary_post_unknown_type_witness:
  "dict_file_ok Map.empty \<and>
   str_lit ''word'' \<notin> {str_lit ''words'', str_lit ''phrases''} \<and>
   user_dictionary_post (Some [str_lit ''type'' \<mapsto> str_lit ''word'', str_lit ''entry'' \<mapsto> str_lit ''ok''])
     Map.empty = (Inl KeyError, Map.empty)"
proof -
  let ?d = "[str_lit ''type'' \<mapsto> str_lit ''word'', str_lit ''entry'' \<mapsto> str_lit ''ok'']"
  have h1: "dict_file_ok Map.empty" by (simp add: dict_file_ok_def)
  have h2: "py_get ?d (str_lit ''type'') (str_lit ''words'') = str_lit ''word''"
    by (simp add: py_get_def str_lit_def)
  have h3: "str_lit ''word'' \<notin> {str_lit ''words'', str_lit ''phrases''}" by (simp add: str_lit_def)
  have h4: "py_get ?d (str_lit ''entry'') [] = str_lit ''ok''" by (simp add: py_get_def str_lit_def)
  have h5: "str_lit ''ok'' \<noteq> []" by (simp add: str_lit_def)
  show ?thesis using h1 h3 user_dictionary_post_unknown_type [OF h1 h2 h3 h4 h5] by blast
qed

lemma user_dictionary_post_present:
  assumes "py_get data (str_lit ''type'') (str_lit ''words'') = t" and "py_get data (str_lit ''entry'') [] = e"
    and "py_subscript (load_dictionary fs) t = Inr lst" and "py_contains lst e = Inr True"
  shows "snd (user_dictionary_post (Some data) fs) = fs"
  using assms by (simp add: dict_post_defs)

lemma user_dictionary_post_written:
  assumes "py_get data (str_lit ''type'') (str_lit ''words'') = t" and "py_get data (str_lit ''entry'') [] = e"
  shows "snd (user_dictionary_post (Some data) fs) = fs \<or>
    (\<exists>d' lst'. snd (user_dictionary_post (Some data) fs) = fs(dict_path \<mapsto> d') \<and>
       py_subscript d' t = Inr lst' \<and> py_contains lst' e = Inr True)"
proof (cases "\<exists>lst lst'. py_subscript (load_dictionary fs) t = Inr lst \<and> py_contains lst e = Inr False \<and>
    py_append lst e = Inr lst' \<and> e \<noteq> []")
  case True
  then obtain lst lst' where s: "py_subscript (load_dictionary fs) t = Inr lst"
    and c: "py_contains lst e = Inr False" and a: "py_append lst e = Inr lst'" and ne: "e \<noteq> []"
    by blast
  have "py_subscript (json_set (load_dictionary fs) t lst') t = Inr lst'"
    using s by (rule py_subscript_json_set)
  with assms s c a ne py_append_contains [OF a] show ?thesis by (simp add: dict_post_defs) blast
next
  case False
  with assms show ?thesis
    by (auto simp: dict_post_defs split: sum.splits bool.splits)
qed

text \<open>
  C16. Repeating a POST changes nothing: whatever the store and the request, the
  second identical request leaves the store as the first one left it.
\<close>

theorem user_dictionary_post_idempotent:
  "snd (user_dictionary_post body (snd (user_dictionary_post body fs))) =
   snd (user_dictionary_post body fs)"
proof (cases body)
  case None
  then show ?thesis by (simp add: dict_post_defs)
next
  case (Some data)
  define t where "t = py_get data (str_lit ''type'') (str_lit ''words'')"
  define e where "e = py_get data (str_lit ''entry'') []"
  from user_dictionary_post_written [OF t_def [symmetric] e_def [symmetric], of fs]
  show ?thesis
  proof (elim disjE exE conjE)
    assume "snd (user_dictionary_post (Some data) fs) = fs"
    with Some show ?thesis by simp
  next
    fix d' lst'
    assume w: "snd (user_dictionary_post (Some data) fs) = fs(dict_path \<mapsto> d')"
      and "py_subscript d' t = Inr lst'" and "py_contains lst' e = Inr True"
    then have "snd (user_dictionary_post (Some data) (fs(dict_path \<mapsto> d'))) = fs(dict_path \<mapsto> d')"
      by (intro user_dictionary_post_present [OF t_def [symmetric] e_def [symmetric]]) simp_all
    with Some w show ?thesis by simp
  qed
qed

declare dec_digits.simps [simp del]

lemma dec_val_snoc: "dec_val (xs @ [d]) = 10 * dec_val xs + (d - 48)"
  by (simp add: dec_val_def)

lemma dec_val_dec_digits: "dec_val (dec_digits n) = n"
proof (induction n rule: dec_digits.induct)
  case (1 n)
  show ?case
  proof (cases "n < 10")
    case True
    then show ?thesis by (simp add: dec_digits.simps dec_val_def)
  next
    case False
    with "1.IH" show ?thesis by (simp add: dec_digits.simps [of n] dec_val_snoc)
  qed
qed

lemma dec_digits_digits: "list_all is_digit (dec_digits n)"
proof (induction n rule: dec_digits.induct)
  case (1 n)
  then show ?case by (subst dec_digits.simps) (auto simp: is_digit_def list_all_iff)
qed

lemma length_dec_digits:
  "length (dec_digits n) = (if n < 10 then 1 else Suc (length (dec_digits (n div 10))))"
  by (subst dec_digits.simps) simp

lemma length_dec_digits_2:
  assumes "10 \<le> n" and "n < 100"
  shows "length (dec_digits n) = 2"
proof -
  have "n div 10 < 10" using assms(2) by (intro less_mult_imp_div_less) simp
  then show ?thesis
    using assms(1) length_dec_digits [of n] length_dec_digits [of "n div 10"] by simp
qed

lemma length_dec_digits_4: "1000 \<le> n \<Longrightarrow> n < 10000 \<Longrightarrow> length (dec_digits n) = 4"
proof -
  assume "1000 \<le> n" "n < 10000"
  then have "100 \<le> n div 10" "10 \<le> n div 10 div 10" by simp_all
  moreover have "n div 10 div 10 < 100" using \<open>n < 10000\<close>
    by (simp add: div_mult2_eq [symmetric] less_mult_imp_div_less)
  ultimately have "10 \<le> n div 10 div 10" "n div 10 div 10 < 100" "\<not> n div 10 < 10"
    by simp_all
  then show ?thesis
    using \<open>1000 \<le> n\<close> length_dec_digits [of n] length_dec_digits [of "n div 10"]
      length_dec_digits_2 [of "n div 10 div 10"] by simp
qed

lemma dec_val_zeros: "dec_val (replicate k 48 @ ds) = dec_val ds"
proof -
  have "foldl (\<lambda>n d. 10 * n + (d - 48)) 0 (replicate k (48::nat)) = 0"
    by (induction k) simp_all
  then show ?thesis by (simp add: dec_val_def)
qed

lemma zpad_2:
  assumes "n < 100"
  shows "length (zpad 2 n) = 2 \<and> dec_val (zpad 2 n) = n \<and> list_all is_digit (zpad 2 n)"
proof -
  have "length (dec_digits n) \<le> 2"
    using assms length_dec_digits [of n] length_dec_digits_2 [of n] by (cases "n < 10") simp_all
  then show ?thesis
    using dec_digits_digits [of n]
    by (auto simp: zpad_def dec_val_zeros dec_val_dec_digits is_digit_def list_all_iff)
qed

lemma parse_doc_id_strftime_id:
  assumes "valid_clock t"
  shows "parse_doc_id (strftime_id t) =
           Some (year t, month t, day t, hour t, minute t, second t)"
proof -
  have c: "1000 \<le> year t" "year t < 10000" "month t < 100" "day t < 100"
    "hour t < 100" "minute t < 100" "second t < 100"
    using assms by (simp_all add: valid_clock_def)
  note y = length_dec_digits_4 [OF c(1,2)] dec_digits_digits [of "year t"]
    dec_val_dec_digits [of "year t"]
  note z = zpad_2 [OF c(3)] zpad_2 [OF c(4)] zpad_2 [OF c(5)] zpad_2 [OF c(6)] zpad_2 [OF c(7)]
  show ?thesis
    using y z by (simp add: parse_doc_id_def strftime_id_def nth_append)
qed

lemma strftime_id_same_second: "same_second t u \<Longrightarrow> strftime_id t = strftime_id u"
  by (simp add: same_second_def strftime_id_def)

lemma strftime_id_inj:
  assumes "valid_clock t" and "valid_clock u" and "strftime_id t = strftime_id u"
  shows "same_second t u"
  using parse_doc_id_strftime_id [OF assms(1)] parse_doc_id_strftime_id [OF assms(2)] assms(3)
  by (simp add: same_second_def)

lemma document_path_inj: "document_path i = document_path j \<longleftrightarrow> i = j"
  by (simp add: document_path_def path_join_def)

lemma save_document_None: "save_document None t c fs = (Inl AttributeError, fs)"
  by (simp add: save_document_def)

lemma save_document_Some:
  "\<exists>doc. save_document (Some data) t c fs =
     (Inr (200, JObj [(str_lit ''success'', JBool True), (str_lit ''document_id'', JStr (strftime_id t))]),
      fs(document_path (strftime_id t) \<mapsto> doc))"
  unfolding save_document_def Let_def by (simp only: option.case) (rule exI, rule refl)

lemma save_document_other_path:
  "p \<noteq> document_path (strftime_id t) \<Longrightarrow> snd (save_document body t c fs) p = fs p"
  by (cases body) (simp_all add: save_document_def Let_def)

text \<open>
  C17. The document id has a resolution of one second: a second save whose clock
  reads the same second as an earlier one overwrites the earlier file, so the
  store after both saves is the store after the second save alone.
\<close>

theorem save_document_same_second_overwrites:
  assumes "same_second t1 t2"
  shows "snd (save_document (Some d2) t2 c2 (snd (save_document body1 t1 c1 fs))) =
         snd (save_document (Some d2) t2 c2 fs)"
  using strftime_id_same_second [OF assms]
  by (cases body1) (simp_all add: save_document_def Let_def)

theorem save_document_same_second_overwrites_witness:
  "same_second \<lparr>year = 2024, month = 5, day = 17, hour = 9, minute = 30, second = 12, microsecond = 100\<rparr>
               \<lparr>year = 2024, month = 5, day = 17, hour = 9, minute = 30, second = 12, microsecond = 900\<rparr> \<and>
   snd (save_document (Some Map.empty)
          \<lparr>year = 2024, month = 5, day = 17, hour = 9, minute = 30, second = 12, microsecond = 900\<rparr>
          \<lparr>year = 2024, month = 5, day = 17, hour = 9, minute = 30, second = 12, microsecond = 900\<rparr>
          (snd (save_document (Some [str_lit ''content'' \<mapsto> str_lit ''Caro Mario''])
                 \<lparr>year = 2024, month = 5, day = 17, hour = 9, minute = 30, second = 12, microsecond = 100\<rparr>
                 \<lparr>year = 2024, month = 5, day = 17, hour = 9, minute = 30, second = 12, microsecond = 100\<rparr>
                 Map.empty))) =
   snd (save_document (Some Map.empty)
          \<lparr>year = 2024, month = 5, day = 17, hour = 9, minute = 30, second = 12, microsecond = 900\<rparr>
          \<lparr>year = 2024, month = 5, day = 17, hour = 9, minute = 30, second = 12, microsecond = 900\<rparr>
          Map.empty)"
proof -
  have h: "same_second \<lparr>year = 2024, month = 5, day = 17, hour = 9, minute = 30, second = 12, microsecond = 100\<rparr>
               \<lparr>year = 2024, month = 5, day = 17, hour = 9, minute = 30, second = 12, microsecond = 900\<rparr>"
    by (simp add: same_second_def)
  show ?thesis using h save_document_same_second_overwrites [OF h] by blast
qed

text \<open>
  C18. With a clock in the years 1000--9999, saves in different seconds write
  different files: a later save leaves the file of an earlier one as it was.
\<close>

theorem save_document_distinct_seconds_kept:
  assumes "valid_clock t1" and "valid_clock t2" and "\<not> same_second t1 t2"
  shows "snd (save_document body2 t2 c2 (snd (save_document body1 t1 c1 fs))) (document_path (strftime_id t1)) =
         snd (save_document body1 t1 c1 fs) (document_path (strftime_id t1))"
proof -
  have "strftime_id t1 \<noteq> strftime_id t2" using strftime_id_inj assms by blast
  then have "document_path (strftime_id t1) \<noteq> document_path (strftime_id t2)"
    by (simp add: document_path_inj)
  then show ?thesis by (rule save_document_other_path)
qed

theorem save_document_distinct_seconds_kept_witness:
  "valid_clock \<lparr>year = 2024, month = 5, day = 17, hour = 9, minute = 30, second = 12, microsecond = 0\<rparr> \<and>
   valid_clock \<lparr>year = 2024, month = 5, day = 17, hour = 9, minute = 30, second = 13, microsecond = 0\<rparr> \<and>
   \<not> same_second \<lparr>year = 2024, month = 5, day = 17, hour = 9, minute = 30, second = 12, microsecond = 0\<rparr>
                 \<lparr>year = 2024, month = 5, day = 17, hour = 9, minute = 30, second = 13, microsecond = 0\<rparr> \<and>
   snd (save_document (Some Map.empty)
          \<lparr>year = 2024, month = 5, day = 17, hour = 9, minute = 30, second = 13, microsecond = 0\<rparr>
          \<lparr>year = 2024, month = 5, day = 17, hour = 9, minute = 30, second = 13, microsecond = 0\<rparr>
          (snd (save_document (Some Map.empty)
                 \<lparr>year = 2024, month = 5, day = 17, hour = 9, minute = 30, second = 12, microsecond = 0\<rparr>
                 \<lparr>year = 2024, month = 5, day = 17, hour = 9, minute = 30, second = 12, microsecond = 0\<rparr>
                 Map.empty)))
     (document_path (strftime_id
        \<lparr>year = 2024, month = 5, day = 17, hour = 9, minute = 30, second = 12, microsecond = 0\<rparr>)) =
   snd (save_document (Some Map.empty)
          \<lparr>year = 2024, month = 5, day = 17, hour = 9, minute = 30, second = 12, microsecond = 0\<rparr>
          \<lparr>year = 2024, month = 5, day = 17, hour = 9, minute = 30, second = 12, microsecond = 0\<rparr>
          Map.empty)
     (document_path (strftime_id
        \<lparr>year = 2024, month = 5, day = 17, hour = 9, minute = 30, second = 12, microsecond = 0\<rparr>))"
proof -
  have h1: "valid_clock \<lparr>year = 2024, month = 5, day = 17, hour = 9, minute = 30, second = 12, microsecond = 0\<rparr>"
    by (simp add: valid_clock_def)
  have h2: "valid_clock \<lparr>year = 2024, month = 5, day = 17, hour = 9, minute = 30, second = 13, microsecond = 0\<rparr>"
    by (simp add: valid_clock_def)
  have h3: "\<not> same_second \<lparr>year = 2024, month = 5, day = 17, hour = 9, minute = 30, second = 12, microsecond = 0\<rparr>
                 \<lparr>year = 2024, month = 5, day = 17, hour = 9, minute = 30, second = 13, microsecond = 0\<rparr>"
    by (simp add: same_second_def)
  show ?thesis using h1 h2 h3 save_document_distinct_seconds_kept [OF h1 h2 h3] by blast
qed

text \<open>
  C19. With a clock in the years 1000--9999, a save answers 200 with an id that
  reads back as the second of the clock in the form \<open>YYYYMMDD_HHMMSS\<close>, and the
  file of that id exists afterwards.
\<close>

theorem save_document_id_roundtrip:
  assumes "valid_clock t"
  shows "\<exists>i. fst (save_document (Some data) t c fs) =
               Inr (200, JObj [(str_lit ''success'', JBool True), (str_lit ''document_id'', JStr i)]) \<and>
             parse_doc_id i = Some (year t, month t, day t, hour t, minute t, second t) \<and>
             snd (save_document (Some data) t c fs) (document_path i) \<noteq> None"
proof -
  obtain doc where "save_document (Some data) t c fs =
     (Inr (200, JObj [(str_lit ''success'', JBool True), (str_lit ''document_id'', JStr (strftime_id t))]),
      fs(document_path (strftime_id t) \<mapsto> doc))"
    using save_document_Some by blast
  then show ?thesis using parse_doc_id_strftime_id [OF assms] by simp
qed

theorem save_document_id_roundtrip_witness:
  "valid_clock \<lparr>year = 2024, month = 12, day = 31, hour = 23, minute = 59, second = 59, microsecond = 999999\<rparr> \<and>
   (\<exists>i. fst (save_document (Some Map.empty)
               \<lparr>year = 2024, month = 12, day = 31, hour = 23, minute = 59, second = 59, microsecond = 999999\<rparr>
               \<lparr>year = 2024, month = 12, day = 31, hour = 23, minute = 59, second = 59, microsecond = 999999\<rparr>
               Map.empty) =
          Inr (200, JObj [(str_lit ''success'', JBool True), (str_lit ''document_id'', JStr i)]) \<and>
        parse_doc_id i = Some (2024, 12, 31, 23, 59, 59) \<and>
        snd (save_document (Some Map.empty)
               \<lparr>year = 2024, month = 12, day = 31, hour = 23, minute = 59, second = 59, microsecond = 999999\<rparr>
               \<lparr>year = 2024, month = 12, day = 31, hour = 23, minute = 59, second = 59, microsecond = 999999\<rparr>
               Map.empty) (document_path i) \<noteq> None)"
proof -
  have h: "valid_clock \<lparr>year = 2024, month = 12, day = 31, hour = 23, minute = 59, second = 59, microsecond = 999999\<rparr>"
    by (simp add: valid_clock_def)
  show ?thesis using h save_document_id_roundtrip [OF h, of Map.empty] by simp
qed

text \<open>
  C20. Saving a document never touches the dictionary file: the GET of the
  dictionary answers the same, and the invariant of the dictionary file is kept.
\<close>

theorem save_document_dictionary_frame:
  "user_dictionary_get (snd (save_document body t c fs)) = user_dictionary_get fs \<and>
   dict_file_ok (snd (save_document body t c fs)) = dict_file_ok fs"
  by (simp add: user_dictionary_get_def load_dictionary_def dict_file_ok_def save_document_dict_file)

lemma sample_posts_inputs:
  "dict_file_ok Map.empty"
  "py_get [str_lit ''entry'' \<mapsto> str_lit ''ciao''] (str_lit ''type'') (str_lit ''words'') = str_lit ''words''"
  "py_get [str_lit ''entry'' \<mapsto> str_lit ''salve''] (str_lit ''type'') (str_lit ''words'') = str_lit ''words''"
  "str_lit ''words'' \<in> {str_lit ''words'', str_lit ''phrases''}"
  "py_get [str_lit ''entry'' \<mapsto> str_lit ''ciao''] (str_lit ''entry'') [] = str_lit ''ciao''"
  "str_lit ''ciao'' \<noteq> []"
  "py_get [str_lit ''entry'' \<mapsto> str_lit ''salve''] (str_lit ''entry'') [] = str_lit ''salve''"
  "str_lit ''salve'' \<noteq> []"
  "str_lit ''ciao'' \<noteq> str_lit ''salve''"
  "str_lit ''ciao'' \<notin> set (dict_entries Map.empty (str_lit ''words''))"
  "str_lit ''salve'' \<notin> set (dict_entries Map.empty (str_lit ''words''))"
  by (simp_all add: dict_file_ok_def py_get_def str_lit_def dict_entries_def load_dictionary_def
      default_dictionary_def List.map_filter_simps)

end
