(* ===== verification/Templates.thy ===== *)
theory Templates
  imports File_Store
begin

text \<open>
  The template catalogue of \<open>src/facilescrivere/app.py\<close>: the dictionary
  \<open>DOCUMENT_TEMPLATES\<close> (lines 89--219) as a JSON object, its six texts code point by
  code point (the source holds the accented letters in a mis-decoded form such as
  \<open>pi\<surd>\<pi>\<close>, U+221A U+03C0, and those are the code points here), and the two
  handlers that serve it, \<open>get_templates\<close> and \<open>get_template\<close> (lines 243--254).
\<close>

text \<open>\<open>DOCUMENT_TEMPLATES['lettera_contestazione']['template']\<close>.\<close>

definition tpl_lettera_contestazione :: pystr where
  "tpl_lettera_contestazione =
     str_lit ''Spett.le [Nome Azienda/Ente],'' @
     [10, 10] @
     str_lit ''Oggetto: Contestazione [specificare il motivo]'' @
     [10, 10] @
     str_lit ''Io sottoscritto/a [Nome e Cognome], nato/a a [Luogo] il [Dat'' @
     str_lit ''a], residente in [Indirizzo completo], con la presente inten'' @
     str_lit ''do contestare [specificare dettagliatamente il problema].'' @
     [10, 10] @
     str_lit ''I fatti si sono svolti nel seguente modo: [descrivere i fatt'' @
     str_lit ''i cronologicamente].'' @
     [10, 10] @
     str_lit ''Ritengo che [esporre le proprie ragioni e il diritto che si '' @
     str_lit ''ritiene violato].'' @
     [10, 10] @
     str_lit ''Pertanto, chiedo [specificare ci'' @
     [8730, 8804] @
     str_lit '' che si richiede: rimborso, sostituzione, riparazione, etc.]'' @
     str_lit ''.'' @
     [10, 10] @
     str_lit ''In attesa di un Vostro cortese riscontro, porgo distinti sal'' @
     str_lit ''uti.'' @
     [10, 10] @
     str_lit ''[Luogo e data]'' @
     [10] @
     str_lit ''[Firma]''"

text \<open>\<open>DOCUMENT_TEMPLATES['email_formale']['template']\<close>.\<close>

definition tpl_email_formale :: pystr where
  "tpl_email_formale =
     str_lit ''Oggetto: [Specificare l'' @
     [39] @
     str_lit ''oggetto della comunicazione]'' @
     [10, 10] @
     str_lit ''Gentile [Signore/Signora/Dottore] [Cognome],'' @
     [10, 10] @
     str_lit ''La presente per [specificare il motivo della comunicazione].'' @
     [10, 10] @
     str_lit ''[Corpo del messaggio - esporre chiaramente la richiesta o l'' @
     [39] @
     str_lit ''informazione]'' @
     [10, 10] @
     str_lit ''In attesa di una Sua cortese risposta, La ringrazio per l'' @
     [39] @
     str_lit ''attenzione.'' @
     [10, 10] @
     str_lit ''Distinti saluti,'' @
     [10, 10] @
     str_lit ''[Nome e Cognome]'' @
     [10] @
     str_lit ''[Telefono]'' @
     [10] @
     str_lit ''[Email]''"

text \<open>\<open>DOCUMENT_TEMPLATES['lettera_auguri']['template']\<close>.\<close>

definition tpl_lettera_auguri :: pystr where
  "tpl_lettera_auguri =
     str_lit ''Caro/a [Nome],'' @
     [10, 10] @
     str_lit ''In occasione di [specificare l'' @
     [39] @
     str_lit ''occasione: compleanno, matrimonio, laurea, etc.], desidero p'' @
     str_lit ''orgerti i miei pi'' @
     [8730, 960] @
     str_lit '' sinceri auguri.'' @
     [10, 10] @
     str_lit ''[Aggiungere un messaggio personale e affettuoso]'' @
     [10, 10] @
     str_lit ''Ti auguro ogni bene e tanta felicit'' @
     [8730, 8224] @
     str_lit ''.'' @
     [10, 10] @
     str_lit ''Con affetto,'' @
     [10] @
     str_lit ''[Il tuo nome]'' @
     [10, 10] @
     str_lit ''[Data]''"

text \<open>\<open>DOCUMENT_TEMPLATES['richiesta_informazioni']['template']\<close>.\<close>

definition tpl_richiesta_informazioni :: pystr where
  "tpl_richiesta_informazioni =
     str_lit ''Spett.le [Nome Azienda/Ufficio],'' @
     [10, 10] @
     str_lit ''Oggetto: Richiesta informazioni riguardo [specificare l'' @
     [39] @
     str_lit ''argomento]'' @
     [10, 10] @
     str_lit ''Io sottoscritto/a [Nome e Cognome], vorrei ricevere informaz'' @
     str_lit ''ioni dettagliate riguardo [specificare l'' @
     [39] @
     str_lit ''oggetto della richiesta].'' @
     [10, 10] @
     str_lit ''In particolare, mi interesserebbe sapere:'' @
     [10] @
     str_lit ''- [Prima domanda]'' @
     [10] @
     str_lit ''- [Seconda domanda]'' @
     [10] @
     str_lit ''- [Terza domanda]'' @
     [10, 10] @
     str_lit ''Vi sarei grato/a se poteste fornirmi tutte le informazioni n'' @
     str_lit ''ecessarie e i documenti eventualmente richiesti.'' @
     [10, 10] @
     str_lit ''Resto in attesa di una Vostra cortese risposta.'' @
     [10, 10] @
     str_lit ''Distinti saluti,'' @
     [10, 10] @
     str_lit ''[Nome e Cognome]'' @
     [10] @
     str_lit ''[Telefono]'' @
     [10] @
     str_lit ''[Email]'' @
     [10] @
     str_lit ''[Data]''"

text \<open>\<open>DOCUMENT_TEMPLATES['curriculum_semplice']['template']\<close>.\<close>

definition tpl_curriculum_semplice :: pystr where
  "tpl_curriculum_semplice =
     str_lit ''CURRICULUM VITAE'' @
     [10, 10] @
     str_lit ''INFORMAZIONI PERSONALI'' @
     [10] @
     str_lit ''Nome e Cognome: [Inserire nome e cognome]'' @
     [10] @
     str_lit ''Data di nascita: [gg/mm/aaaa]'' @
     [10] @
     str_lit ''Luogo di nascita: [Inserire citt'' @
     [8730, 8224] @
     str_lit '']'' @
     [10] @
     str_lit ''Residenza: [Inserire indirizzo completo]'' @
     [10] @
     str_lit ''Telefono: [Inserire numero]'' @
     [10] @
     str_lit ''Email: [Inserire email]'' @
     [10, 10] @
     str_lit ''ISTRUZIONE'' @
     [10] @
     str_lit ''[Anno] - [Titolo di studio] presso [Nome istituto/universit'' @
     [8730, 8224] @
     str_lit '']'' @
     [10, 10] @
     str_lit ''ESPERIENZA LAVORATIVA'' @
     [10] @
     str_lit ''[Periodo] - [Ruolo] presso [Nome azienda]'' @
     [10] @
     str_lit ''Principali mansioni: [Descrivere brevemente le attivit'' @
     [8730, 8224] @
     str_lit '' svolte]'' @
     [10, 10] @
     str_lit ''COMPETENZE'' @
     [10] @
     str_lit ''- [Competenza 1]'' @
     [10] @
     str_lit ''- [Competenza 2]'' @
     [10] @
     str_lit ''- [Competenza 3]'' @
     [10, 10] @
     str_lit ''LINGUE STRANIERE'' @
     [10] @
     str_lit ''- [Lingua]: [Livello]'' @
     [10, 10] @
     str_lit ''Autorizzo il trattamento dei miei dati personali ai sensi de'' @
     str_lit ''l Decreto Legislativo 30 giugno 2003, n. 196 e del GDPR (Reg'' @
     str_lit ''olamento UE 2016/679).'' @
     [10, 10] @
     str_lit ''[Luogo e data]'' @
     [10] @
     str_lit ''[Firma]''"

text \<open>\<open>DOCUMENT_TEMPLATES['condoglianze']['template']\<close>.\<close>

definition tpl_condoglianze :: pystr where
  "tpl_condoglianze =
     str_lit ''Cara/o [Nome] e famiglia,'' @
     [10, 10] @
     str_lit ''Ho appreso con grande dispiacere della scomparsa di [Nome de'' @
     str_lit ''l defunto].'' @
     [10, 10] @
     str_lit ''[Aggiungere un ricordo personale o parole di conforto]'' @
     [10, 10] @
     str_lit ''Vi sono vicino/a in questo momento di dolore e vi porgo le m'' @
     str_lit ''ie pi'' @
     [8730, 960] @
     str_lit '' sentite condoglianze.'' @
     [10, 10] @
     str_lit ''Con affetto e partecipazione,'' @
     [10, 10] @
     str_lit ''[Il tuo nome]'' @
     [10] @
     str_lit ''[Data]''"

definition template_catalogue :: "(pystr \<times> json) list" where
  "template_catalogue =
     [(str_lit ''lettera_contestazione'', JObj
         [(str_lit ''name'', JStr (str_lit ''Lettera di Contestazione'')),
          (str_lit ''template'', JStr tpl_lettera_contestazione),
          (str_lit ''icon'', JStr ([8218, 246, 241, 212, 8719, 232]))]),
      (str_lit ''email_formale'', JObj
         [(str_lit ''name'', JStr (str_lit ''Email Formale'')),
          (str_lit ''template'', JStr tpl_email_formale),
          (str_lit ''icon'', JStr ([63743, 252, 236, 223]))]),
      (str_lit ''lettera_auguri'', JObj
         [(str_lit ''name'', JStr (str_lit ''Lettera di Auguri'')),
          (str_lit ''template'', JStr tpl_lettera_auguri),
          (str_lit ''icon'', JStr ([63743, 252, 233, 226]))]),
      (str_lit ''richiesta_informazioni'', JObj
         [(str_lit ''name'', JStr (str_lit ''Richiesta Informazioni'')),
          (str_lit ''template'', JStr tpl_richiesta_informazioni),
          (str_lit ''icon'', JStr ([8218, 209, 960, 212, 8719, 232]))]),
      (str_lit ''curriculum_semplice'', JObj
         [(str_lit ''name'', JStr (str_lit ''Curriculum Vitae Semplice'')),
          (str_lit ''template'', JStr tpl_curriculum_semplice),
          (str_lit ''icon'', JStr ([63743, 252, 236, 209]))]),
      (str_lit ''condoglianze'', JObj
         [(str_lit ''name'', JStr (str_lit ''Messaggio di Condoglianze'')),
          (str_lit ''template'', JStr tpl_condoglianze),
          (str_lit ''icon'', JStr ([63743, 252, 239, 228, 212, 8719, 232]))])]"

definition document_templates :: json where
  "document_templates = JObj template_catalogue"

definition get_templates :: json_response where
  "get_templates = Inr (200, document_templates)"

definition get_template :: "pystr \<Rightarrow> json_response" where
  "get_template template_id =
     (case py_contains document_templates template_id of
        Inl e \<Rightarrow> Inl e
      | Inr False \<Rightarrow> Inr (404, JObj [(str_lit ''error'', JStr (str_lit ''Template not found''))])
      | Inr True \<Rightarrow>
          (case py_subscript document_templates template_id of
             Inl e \<Rightarrow> Inl e
           | Inr v \<Rightarrow> Inr (200, v)))"

definition template_not_found :: json where
  "template_not_found = JObj [(str_lit ''error'', JStr (str_lit ''Template not found''))]"

lemma get_template_JObj:
  assumes "document_templates = JObj kvs"
  shows "get_template i =
           (case map_of kvs i of None \<Rightarrow> Inr (404, template_not_found) | Some v \<Rightarrow> Inr (200, v))"
proof (cases "map_of kvs i")
  case None
  then have "i \<notin> fst ` set kvs" by (simp add: map_of_eq_None_iff)
  with None show ?thesis by (simp add: get_template_def assms template_not_found_def)
next
  case (Some v)
  then have "i \<in> fst ` set kvs" by (metis map_of_SomeD fst_conv image_eqI)
  with Some show ?thesis by (simp add: get_template_def assms)
qed

text \<open>
  C21. The two template routes agree: \<open>/api/templates\<close> lists six templates under
  distinct ids, \<open>/api/templates/<id>\<close> answers 200 with the listed entry for each
  of them, and 404 exactly for an id that is not listed.
\<close>

theorem get_template_serves_catalogue:
  "\<exists>kvs. get_templates = Inr (200, JObj kvs) \<and> distinct (map fst kvs) \<and> length kvs = 6 \<and>
     list_all (\<lambda>(k, v). get_template k = Inr (200, v)) kvs \<and>
     (get_template i = Inr (404, template_not_found) \<longleftrightarrow> i \<notin> fst ` set kvs)"
proof -
  define kvs where "kvs = template_catalogue"
  have d: "document_templates = JObj kvs" by (simp add: kvs_def document_templates_def)
  have dist: "distinct (map fst kvs)" and len: "length kvs = 6"
    by (simp_all add: kvs_def template_catalogue_def str_lit_def)
  have "list_all (\<lambda>(k, v). get_template k = Inr (200, v)) kvs"
    using dist by (auto simp: get_template_JObj [OF d] list_all_iff)
  moreover have "get_template i = Inr (404, template_not_found) \<longleftrightarrow> i \<notin> fst ` set kvs"
    by (simp add: get_template_JObj [OF d] map_of_eq_None_iff [symmetric] split: option.split)
  ultimately show ?thesis using d dist len unfolding get_templates_def by blast
qed

end
