(* ===== verification/Routes.thy ===== *)
theory Routes
  imports Grammar_Checker Pdf_Export Templates
begin

text \<open>
  The Flask routes of \<open>src/facilescrivere/app.py\<close> and the server as a whole. The
  handlers without state, \<open>check_grammar\<close> (lines 226--241) and \<open>export_pdf\<close>
  (lines 284--336), wrap the suggestion engine and the PDF layout; the server is a
  step function from a request and the store of the upload folder to a response and
  the new store, and \<open>serve\<close> a run of requests one after the other. Flask's
  conversion of a dictionary to JSON is the identity on the \<open>json\<close> value: the text
  of the answer (key order, escaping) is not modelled.
\<close>

definition suggestion_type_str :: "suggestion_type \<Rightarrow> pystr" where
  "suggestion_type_str t = (case t of Spelling \<Rightarrow> str_lit ''spelling'' | Formality \<Rightarrow> str_lit ''formality'')"

text \<open>The dictionary that \<open>check_text\<close> appends for one suggestion (lines 65--81).\<close>

definition suggestion_json :: "suggestion_entry \<Rightarrow> json" where
  "suggestion_json s = JObj
     [(str_lit ''type'', JStr (suggestion_type_str (stype s))),
      (str_lit ''original'', JStr (original s)),
      (str_lit ''suggestion'', JStr (suggestion s)),
      (str_lit ''position'', JInt (int (position s))),
      (str_lit ''explanation'', JStr (explanation s))]"

text \<open>
  \<open>check_grammar\<close> on the module-level checker \<open>grammar_checker = GrammarChecker()\<close>
  (line 86), here \<open>init_grammar_checker\<close>.
\<close>

definition check_grammar :: "ucd \<Rightarrow> request_body \<Rightarrow> json_response" where
  "check_grammar db body =
     (case body of
        None \<Rightarrow> Inl AttributeError
      | Some data \<Rightarrow>
          (let text = py_get data (str_lit ''text'') []
           in if text = [] then Inr (400, JObj [(str_lit ''error'', JStr (str_lit ''No text provided''))])
              else
                (let suggestions = check_text db init_grammar_checker text
                 in Inr (200, JObj
                      [(str_lit ''suggestions'', JArr (map suggestion_json suggestions)),
                       (str_lit ''word_count'', JInt (int (length (py_split text)))),
                       (str_lit ''character_count'', JInt (int (length text)))]))))"

text \<open>
  \<open>export_pdf\<close>: the canvas operations written to the buffer and the download name
  of \<open>send_file\<close>.
\<close>

definition export_pdf :: "request_body \<Rightarrow> py_exc + canvas_op list \<times> pystr" where
  "export_pdf body =
     (case body of
        None \<Rightarrow> Inl AttributeError
      | Some data \<Rightarrow>
          (let title = py_get data (str_lit ''title'') (str_lit ''Documento'');
               content = py_get data (str_lit ''content'') []
           in Inr (render_pdf title content, title @ str_lit ''.pdf'')))"

text \<open>
  The requests the application routes, with the inputs a handler reads: the body of
  \<open>request.get_json()\<close>, the URL parameter, and for \<open>save_document\<close> the two readings
  of \<open>datetime.now()\<close>. \<open>Index\<close> renders \<open>index.html\<close> with the catalogue; the
  HTML is not modelled. A body is a JSON object whose values are strings
  (\<open>request_body\<close>): bodies with numbers, lists or nested objects as values, and
  bodies that are not objects, are outside the model, so the theorems hold for the
  requests the front end sends, not for every request a client can craft. \<open>None\<close>
  is the body \<open>get_json()\<close> returns for a JSON \<open>null\<close> (and, before Flask 2.1, for
  a request without a JSON body; later versions answer such a request with 400 or
  415 before the handler runs).
\<close>

datatype request =
    Index
  | CheckGrammar request_body
  | GetTemplates
  | GetTemplate pystr
  | SaveDocument request_body datetime datetime
  | ExportPdf request_body
  | DictGet
  | DictPost request_body

datatype response =
    RenderIndex json
  | JsonResponse nat json
  | PdfAttachment "canvas_op list" pystr
  | ServerError py_exc
  | HttpError nat

definition json_resp :: "json_response \<Rightarrow> response" where
  "json_resp r = (case r of Inl e \<Rightarrow> ServerError e | Inr (c, j) \<Rightarrow> JsonResponse c j)"

fun server_step :: "ucd \<Rightarrow> request \<Rightarrow> files \<Rightarrow> response \<times> files" where
  "server_step db Index fs = (RenderIndex document_templates, fs)"
| "server_step db (CheckGrammar body) fs = (json_resp (check_grammar db body), fs)"
| "server_step db GetTemplates fs = (json_resp get_templates, fs)"
| "server_step db (GetTemplate i) fs = (json_resp (get_template i), fs)"
| "server_step db (SaveDocument body t c) fs =
     (case save_document body t c fs of (r, fs') \<Rightarrow> (json_resp r, fs'))"
| "server_step db (ExportPdf body) fs =
     ((case export_pdf body of
         Inl e \<Rightarrow> ServerError e
       | Inr (doc, name) \<Rightarrow> PdfAttachment doc name), fs)"
| "server_step db DictGet fs = (json_resp (user_dictionary_get fs), fs)"
| "server_step db (DictPost body) fs =
     (case user_dictionary_post body fs of (r, fs') \<Rightarrow> (json_resp r, fs'))"

text \<open>
  \<open>app.config['MAX_CONTENT_LENGTH'] = 16 * 1024 * 1024\<close> (line 19): when a handler
  reads the body of a request longer than this, \<open>request.get_json()\<close> raises
  \<open>RequestEntityTooLarge\<close> and Flask answers 413 before the handler does anything
  else. The handlers that read a body are those of the POST routes; \<open>dispatch\<close> is
  the server on a request of \<open>n\<close> body bytes.
\<close>

definition max_content_length :: nat where
  "max_content_length = 16 * 1024 * 1024"

fun has_body :: "request \<Rightarrow> bool" where
  "has_body (CheckGrammar b) = True"
| "has_body (SaveDocument b t c) = True"
| "has_body (ExportPdf b) = True"
| "has_body (DictPost b) = True"
| "has_body _ = False"

definition dispatch :: "ucd \<Rightarrow> nat \<Rightarrow> request \<Rightarrow> files \<Rightarrow> response \<times> files" where
  "dispatch db n req fs =
     (if has_body req \<and> max_content_length < n then (HttpError 413, fs) else server_step db req fs)"

text \<open>
  A run of the server: the requests in the order they are served, each with the
  length of its body, and the answers in the same order.
\<close>

fun serve :: "ucd \<Rightarrow> (nat \<times> request) list \<Rightarrow> files \<Rightarrow> response list \<times> files" where
  "serve db [] fs = ([], fs)"
| "serve db ((n, req) # rs) fs =
     (case dispatch db n req fs of
        (r, fs') \<Rightarrow> (case serve db rs fs' of (rs', fs'') \<Rightarrow> (r # rs', fs'')))"

text \<open>The answers a client can read as a JSON object.\<close>

fun is_obj :: "json \<Rightarrow> bool" where
  "is_obj (JObj kvs) = True"
| "is_obj _ = False"

lemma snd_case_prod_resp [simp]: "snd (case p of (r, x) \<Rightarrow> (f r, x)) = snd p"
  by (cases p) simp

lemma save_document_store:
  "\<exists>doc. \<forall>fs. snd (save_document (Some data) t c fs) = fs(document_path (strftime_id t) \<mapsto> doc)"
  unfolding save_document_def Let_def by (simp only: option.case snd_conv) (rule exI, rule allI, rule refl)

lemma user_dictionary_post_upd_other:
  assumes "p \<noteq> dict_path"
  shows "snd (user_dictionary_post body (fs(p \<mapsto> v))) = (snd (user_dictionary_post body fs))(p \<mapsto> v)"
proof -
  have l: "load_dictionary (fs(p \<mapsto> v)) = load_dictionary fs"
    using assms by (simp add: load_dictionary_def)
  show ?thesis
    using assms unfolding dict_post_defs l
    by (auto simp: fun_upd_twist split: option.split sum.split bool.split)
qed

text \<open>
  C22. Saving a document and posting to the dictionary commute: the two handlers
  touch different files and each reads only the file it writes, so in whichever order
  two concurrent requests are served the upload folder ends the same.
\<close>

theorem save_document_dictionary_post_commute:
  "snd (user_dictionary_post b1 (snd (save_document b2 t c fs))) =
   snd (save_document b2 t c (snd (user_dictionary_post b1 fs)))"
proof (cases b2)
  case None
  then show ?thesis by (simp add: save_document_None)
next
  case (Some data)
  obtain doc where d: "\<And>fs. snd (save_document (Some data) t c fs) = fs(document_path (strftime_id t) \<mapsto> doc)"
    using save_document_store by blast
  show ?thesis
    using Some user_dictionary_post_upd_other [OF document_path_ne_dict_path] by (simp add: d)
qed

lemma check_grammar_Some:
  "text = py_get data (str_lit ''text'') [] \<Longrightarrow> text \<noteq> [] \<Longrightarrow>
   check_grammar db (Some data) =
     Inr (200, JObj
       [(str_lit ''suggestions'', JArr (map suggestion_json (check_text db init_grammar_checker text))),
        (str_lit ''word_count'', JInt (int (length (py_split text)))),
        (str_lit ''character_count'', JInt (int (length text)))])"
  by (simp add: check_grammar_def Let_def)

lemma layout_lines_ops:
  "\<exists>xs. ops (layout_lines ls st) = ops st @ xs \<and> Save \<notin> set xs"
proof (induction ls arbitrary: st)
  case Nil
  then show ?case by simp
next
  case (Cons l ls)
  obtain xs where xs: "ops (layout_lines ls (emit_line l (new_page_if_needed st))) =
      ops (emit_line l (new_page_if_needed st)) @ xs" "Save \<notin> set xs"
    using Cons.IH by blast
  have "\<exists>ys. ops (new_page_if_needed st) = ops st @ ys \<and> Save \<notin> set ys"
    by (simp add: new_page_if_needed_def)
  then obtain ys where ys: "ops (new_page_if_needed st) = ops st @ ys" "Save \<notin> set ys" by blast
  have "Save \<notin> set (map (\<lambda>(k, s). DrawString 50 (y_position (new_page_if_needed st) - 15 * int k) s)
            (enumerate 0 (wrapped_lines l)))" by auto
  with xs ys show ?case by (simp add: emit_line_draws_wrapped ops_draw_lines)
qed

text \<open>
  C23. \<open>/api/export-pdf\<close> without a JSON body raises \<open>AttributeError\<close>; with one it
  sends a PDF named after the title (\<open>Documento\<close> when none is given) with the
  suffix \<open>.pdf\<close>, whose canvas first sets the bold font, draws the title at the top
  line and sets the body font, and which is saved once, at the end.
\<close>

theorem export_pdf_attachment:
  "export_pdf None = Inl AttributeError \<and>
   (\<exists>cops. export_pdf (Some data) =
       Inr (cops, py_get data (str_lit ''title'') (str_lit ''Documento'') @ str_lit ''.pdf'') \<and>
     take 3 cops = [SetFont (str_lit ''Helvetica-Bold'') 16,
                    DrawString 50 750 (py_get data (str_lit ''title'') (str_lit ''Documento'')),
                    SetFont (str_lit ''Helvetica'') 12] \<and>
     last cops = Save \<and> count_list cops Save = 1)"
proof -
  let ?t = "py_get data (str_lit ''title'') (str_lit ''Documento'')"
  let ?c = "py_get data (str_lit ''content'') []"
  obtain xs where xs: "ops (layout_lines (py_split_sep 10 ?c) (pdf_start ?t)) = ops (pdf_start ?t) @ xs"
      "Save \<notin> set xs"
    using layout_lines_ops by blast
  then have "count_list xs Save = 0" by (simp add: count_list_0_iff)
  with xs show ?thesis
    by (simp add: export_pdf_def Let_def render_pdf_def pdf_start_def str_lit_def)
qed

lemma json_resp_JsonResponse [simp]: "json_resp r = JsonResponse c j \<longleftrightarrow> r = Inr (c, j)"
  by (auto simp: json_resp_def split: sum.split)

lemma check_grammar_shape: "check_grammar db b = Inr (c, j) \<Longrightarrow> c \<in> {200, 400} \<and> is_obj j"
  by (auto simp: check_grammar_def Let_def split: option.splits if_splits)

lemma template_catalogue_objs: "list_all (\<lambda>(k, v). is_obj v) template_catalogue"
  by (simp add: template_catalogue_def)

lemma get_template_shape: "get_template i = Inr (c, j) \<Longrightarrow> c \<in> {200, 404} \<and> is_obj j"
  using template_catalogue_objs
  by (auto simp: get_template_JObj [OF document_templates_def] template_not_found_def list_all_iff
      split: option.splits dest!: map_of_SomeD)

lemma save_document_shape: "fst (save_document b t t' fs) = Inr (c, j) \<Longrightarrow> c = 200 \<and> is_obj j"
  by (auto simp: save_document_def Let_def split: option.splits)

lemma user_dictionary_post_shape:
  "fst (user_dictionary_post b fs) = Inr (c, j) \<Longrightarrow> c \<in> {200, 400} \<and> is_obj j"
  by (auto simp: dict_post_defs dictionary_ok_body_def
      split: option.splits if_splits sum.splits bool.splits)

lemma load_dictionary_obj: "dict_file_ok fs \<Longrightarrow> is_obj (load_dictionary fs)"
  using load_dictionary_wf [of fs] by (auto simp: wf_dictionary_iff)

text \<open>
  C24. Every JSON answer of the server is an object with status 200, 400 or 404, on
  every store whose dictionary file, if any, is an object of the lists \<open>words\<close>
  and \<open>phrases\<close> (the file the handler creates): a client never receives another
  status or a bare array or string as a JSON answer (uncaught exceptions are server
  errors, not JSON answers).
\<close>

theorem server_step_json_shape:
  assumes "dict_file_ok fs" and "fst (server_step db req fs) = JsonResponse c j"
  shows "c \<in> {200, 400, 404} \<and> is_obj j"
  using assms
proof (cases req)
  case (SaveDocument b t t')
  then show ?thesis
    using assms(2) save_document_shape [of b t t' fs] by (auto simp: case_prod_unfold)
next
  case (DictPost b)
  then show ?thesis
    using assms(2) user_dictionary_post_shape [of b fs] by (auto simp: case_prod_unfold)
next
  case DictGet
  then show ?thesis
    using assms load_dictionary_obj [OF assms(1)] by (auto simp: user_dictionary_get_def)
qed (auto simp: get_templates_def document_templates_def split: sum.splits prod.splits sum.splits
      dest: check_grammar_shape get_template_shape)

theorem server_step_json_shape_witness:
  "dict_file_ok Map.empty \<and>
   fst (server_step latin1_ucd (GetTemplate (str_lit ''lettera_affitto'')) Map.empty) =
     JsonResponse 404 template_not_found \<and>
   404 \<in> {200, 400, 404::nat} \<and> is_obj template_not_found"
proof -
  have h1: "dict_file_ok Map.empty" by (simp add: dict_file_ok_def)
  have h2: "fst (server_step latin1_ucd (GetTemplate (str_lit ''lettera_affitto'')) Map.empty) =
     JsonResponse 404 template_not_found"
    by (simp add: get_template_JObj [OF document_templates_def] json_resp_def
        template_catalogue_def str_lit_def)
  show ?thesis using h1 h2 server_step_json_shape [OF h1 h2] by blast
qed

text \<open>
  The body-size limit: a request with a body of more than 16 MiB to a POST route is
  answered 413 and never reaches its handler, so the store is unchanged; a GET route
  is served whatever the announced length.
\<close>

lemma dispatch_body_limit:
  "(has_body req \<and> 16777216 < n \<longrightarrow> dispatch db n req fs = (HttpError 413, fs)) \<and>
   (n \<le> 16777216 \<or> \<not> has_body req \<longrightarrow> dispatch db n req fs = server_step db req fs)"
  by (simp add: dispatch_def max_content_length_def)

lemma save_document_counts:
  "\<exists>doc. snd (save_document (Some data) t c fs) (document_path (strftime_id t)) = Some doc \<and>
     py_subscript doc (str_lit ''word_count'') =
       Inr (JInt (int (length (py_split (py_get data (str_lit ''content'') []))))) \<and>
     py_subscript doc (str_lit ''character_count'') =
       Inr (JInt (int (length (py_get data (str_lit ''content'') []))))"
  by (simp add: save_document_def Let_def str_lit_def)

text \<open>
  C26. The saved document and the grammar check agree on a text: the
  \<open>word_count\<close> and \<open>character_count\<close> that \<open>save_document\<close> stores for a non-empty
  content are those that \<open>check_grammar\<close> answers for the same text.
\<close>

theorem save_document_counts_match_check_grammar:
  assumes "py_get data (str_lit ''content'') [] = txt" and "py_get data' (str_lit ''text'') [] = txt"
    and "txt \<noteq> []"
  shows "\<exists>doc ss w k. snd (save_document (Some data) t c fs) (document_path (strftime_id t)) = Some doc \<and>
     check_grammar db (Some data') =
       Inr (200, JObj [(str_lit ''suggestions'', JArr ss), (str_lit ''word_count'', w),
                       (str_lit ''character_count'', k)]) \<and>
     py_subscript doc (str_lit ''word_count'') = Inr w \<and>
     py_subscript doc (str_lit ''character_count'') = Inr k"
  using save_document_counts [of data t c fs] check_grammar_Some [OF assms(2) [symmetric] assms(3), of db]
    assms(1) by auto

theorem save_document_counts_match_check_grammar_witness:
  "py_get [str_lit ''content'' \<mapsto> str_lit ''Gentile dottore''] (str_lit ''content'') [] = str_lit ''Gentile dottore'' \<and>
   py_get [str_lit ''text'' \<mapsto> str_lit ''Gentile dottore''] (str_lit ''text'') [] = str_lit ''Gentile dottore'' \<and>
   str_lit ''Gentile dottore'' \<noteq> [] \<and>
   (\<exists>doc ss w k.
     snd (save_document (Some [str_lit ''content'' \<mapsto> str_lit ''Gentile dottore''])
        \<lparr>year = 2024, month = 1, day = 2, hour = 3, minute = 4, second = 5, microsecond = 6\<rparr>
        \<lparr>year = 2024, month = 1, day = 2, hour = 3, minute = 4, second = 5, microsecond = 6\<rparr> Map.empty)
       (document_path (strftime_id \<lparr>year = 2024, month = 1, day = 2, hour = 3, minute = 4, second = 5, microsecond = 6\<rparr>)) =
       Some doc \<and>
     check_grammar latin1_ucd (Some [str_lit ''text'' \<mapsto> str_lit ''Gentile dottore'']) =
       Inr (200, JObj [(str_lit ''suggestions'', JArr ss), (str_lit ''word_count'', w),
                       (str_lit ''character_count'', k)]) \<and>
     py_subscript doc (str_lit ''word_count'') = Inr w \<and>
     py_subscript doc (str_lit ''character_count'') = Inr k)"
proof -
  have h1: "py_get [str_lit ''content'' \<mapsto> str_lit ''Gentile dottore''] (str_lit ''content'') [] = str_lit ''Gentile dottore''"
    by (simp add: py_get_def)
  have h2: "py_get [str_lit ''text'' \<mapsto> str_lit ''Gentile dottore''] (str_lit ''text'') [] = str_lit ''Gentile dottore''"
    by (simp add: py_get_def)
  have h3: "str_lit ''Gentile dottore'' \<noteq> []" by (simp add: str_lit_def)
  show ?thesis
    using h1 h2 h3 save_document_counts_match_check_grammar [OF h1 h2 h3] by blast
qed

text \<open>
  C27. The emptiness test of \<open>check_grammar\<close> is on the raw text: a non-empty text of
  whitespace only is not rejected with 400 but answered 200 with no suggestion, a
  \<open>word_count\<close> of 0 and its length as \<open>character_count\<close>.
\<close>

theorem check_grammar_blank_text:
  assumes "ucd_wf db" and "py_get data (str_lit ''text'') [] = txt" and "txt \<noteq> []"
    and "list_all py_isspace txt"
  shows "check_grammar db (Some data) =
    Inr (200, JObj [(str_lit ''suggestions'', JArr []), (str_lit ''word_count'', JInt 0),
                    (str_lit ''character_count'', JInt (int (length txt)))])"
proof -
  have sp: "\<forall>c \<in> set txt. py_isspace c" using assms(4) by (simp add: list_all_iff)
  then have "py_split txt = []" by (rule py_split_all_space)
  moreover have "check_text db init_grammar_checker txt = []"
    using assms(1) sp by (simp add: check_text_concat py_split_py_lower py_split_all_space)
  ultimately show ?thesis using check_grammar_Some [OF assms(2) [symmetric] assms(3), of db] by simp
qed

theorem check_grammar_blank_text_witness:
  "ucd_wf latin1_ucd \<and>
   py_get [str_lit ''text'' \<mapsto> [32, 10, 32]] (str_lit ''text'') [] = [32, 10, 32] \<and>
   [32, 10, 32] \<noteq> [] \<and> list_all py_isspace [32, 10, 32] \<and>
   check_grammar latin1_ucd (Some [str_lit ''text'' \<mapsto> [32, 10, 32]]) =
     Inr (200, JObj [(str_lit ''suggestions'', JArr []), (str_lit ''word_count'', JInt 0),
                     (str_lit ''character_count'', JInt (int (length [32, 10, 32::nat])))])"
proof -
  have h2: "py_get [str_lit ''text'' \<mapsto> [32, 10, 32]] (str_lit ''text'') [] = [32, 10, 32]"
    by (simp add: py_get_def)
  have h3: "[32, 10, 32::nat] \<noteq> []" by simp
  have h4: "list_all py_isspace [32, 10, 32]" by simp
  show ?thesis
    using latin1_ucd_wf h2 h4 check_grammar_blank_text [OF latin1_ucd_wf h2 h3 h4] by blast
qed

lemma server_step_writes:
  "\<exists>upd. snd (server_step db req fs) = fs ++ upd \<and>
     dom upd \<subseteq> insert dict_path (range (\<lambda>t. document_path (strftime_id t)))"
proof (cases req)
  case (SaveDocument b t c)
  show ?thesis
  proof (cases b)
    case None
    with SaveDocument show ?thesis by (intro exI [of _ Map.empty]) (simp add: save_document_None)
  next
    case (Some data)
    obtain doc where "\<And>fs. snd (save_document (Some data) t c fs) = fs(document_path (strftime_id t) \<mapsto> doc)"
      using save_document_store by blast
    with SaveDocument Some show ?thesis
      by (intro exI [of _ "[document_path (strftime_id t) \<mapsto> doc]"]) auto
  qed
next
  case (DictPost b)
  show ?thesis
  proof (cases b)
    case None
    with DictPost show ?thesis by (intro exI [of _ Map.empty]) (simp add: dict_post_defs)
  next
    case (Some data)
    from user_dictionary_post_written [OF refl refl, of data fs]
    consider "snd (user_dictionary_post (Some data) fs) = fs"
      | d' where "snd (user_dictionary_post (Some data) fs) = fs(dict_path \<mapsto> d')" by blast
    then show ?thesis
    proof cases
      case 1
      with DictPost Some show ?thesis by (intro exI [of _ Map.empty]) simp
    next
      case 2
      with DictPost Some show ?thesis by (intro exI [of _ "[dict_path \<mapsto> d']"]) auto
    qed
  qed
qed (intro exI [of _ Map.empty], simp)+

lemma dispatch_writes:
  "\<exists>upd. snd (dispatch db n req fs) = fs ++ upd \<and>
     dom upd \<subseteq> insert dict_path (range (\<lambda>t. document_path (strftime_id t)))"
  using server_step_writes [of db req fs]
  by (cases "has_body req \<and> max_content_length < n") (auto simp: dispatch_def intro: exI [of _ Map.empty])

lemma serve_writes:
  "length (fst (serve db rs fs)) = length rs \<and>
   (\<exists>upd. snd (serve db rs fs) = fs ++ upd \<and>
      dom upd \<subseteq> insert dict_path (range (\<lambda>t. document_path (strftime_id t))))"
proof (induction rs arbitrary: fs)
  case Nil
  then show ?case by (intro conjI exI [of _ Map.empty]) simp_all
next
  case (Cons nr rs)
  obtain n req where nr: "nr = (n, req)" by fastforce
  obtain r fs' where d: "dispatch db n req fs = (r, fs')" by fastforce
  obtain u1 where u1: "fs' = fs ++ u1" "dom u1 \<subseteq> insert dict_path (range (\<lambda>t. document_path (strftime_id t)))"
    using dispatch_writes [of db n req fs] d by auto
  obtain u2 where u2: "snd (serve db rs fs') = fs' ++ u2"
    "dom u2 \<subseteq> insert dict_path (range (\<lambda>t. document_path (strftime_id t)))"
    and len: "length (fst (serve db rs fs')) = length rs"
    using Cons.IH [of fs'] by blast
  have "snd (serve db (nr # rs) fs) = fs ++ (u1 ++ u2)" "length (fst (serve db (nr # rs) fs)) = Suc (length rs)"
    using nr d u1 u2 len by (simp_all add: case_prod_unfold)
  moreover have "dom (u1 ++ u2) \<subseteq> insert dict_path (range (\<lambda>t. document_path (strftime_id t)))"
    using u1 u2 by auto
  ultimately show ?case by (intro conjI exI [of _ "u1 ++ u2"]) simp_all
qed

text \<open>
  C25. What a run of the server does to the upload folder: every request is
  answered, no file is ever removed, and the only files a run creates or changes
  are the dictionary file and files \<open>document_<id>.json\<close> with an id written by
  \<open>strftime\<close>; no request can choose the name of a file it writes.
\<close>

theorem serve_frame:
  "length (fst (serve db rs fs)) = length rs \<and>
   dom fs \<subseteq> dom (snd (serve db rs fs)) \<and>
   {p. snd (serve db rs fs) p \<noteq> fs p} \<subseteq> insert dict_path (range (\<lambda>t. document_path (strftime_id t)))"
proof -
  obtain upd where u: "snd (serve db rs fs) = fs ++ upd"
      "dom upd \<subseteq> insert dict_path (range (\<lambda>t. document_path (strftime_id t)))"
    and len: "length (fst (serve db rs fs)) = length rs"
    using serve_writes by blast
  have "{p. (fs ++ upd) p \<noteq> fs p} \<subseteq> dom upd" by (auto simp: map_add_def split: option.splits)
  with u len show ?thesis by auto
qed

end
