(* ===== verification/Interleaving.thy ===== *)
theory Interleaving
  imports File_Store
begin

text \<open>
  Concurrent dictionary POSTs. \<open>app.run(debug=True, ...)\<close> (line 380) starts the
  Werkzeug development server, which serves every request in its own thread, and
  \<open>user_dictionary\<close> (lines 352--376) reads the dictionary file and writes it back
  later with no lock. A handler is split at its file accesses into two steps:
  \<open>post_read\<close> (read the body, check the entry, load the file: lines 354--366) and
  \<open>post_write\<close> (update the loaded dictionary and write it: lines 369--376); a
  thread is in state \<open>Ready\<close>, \<open>Loaded\<close> or \<open>Done\<close>, and \<open>run_sched\<close> runs two
  threads on one store under a schedule (\<open>False\<close> steps the first thread,
  \<open>True\<close> the second).
\<close>

datatype post_thread =
    Ready request_body
  | Loaded pystr pystr json
  | Done json_response

definition post_read :: "request_body \<Rightarrow> files \<Rightarrow> post_thread" where
  "post_read body fs =
     (case body of
        None \<Rightarrow> Done (Inl AttributeError)
      | Some data \<Rightarrow>
          (let word_type = py_get data (str_lit ''type'') (str_lit ''words'');
               entry = py_get data (str_lit ''entry'') []
           in if entry = [] then Done (Inr (400, JObj [(str_lit ''error'', JStr (str_lit ''No entry provided''))]))
              else Loaded word_type entry (load_dictionary fs)))"

definition post_write :: "pystr \<Rightarrow> pystr \<Rightarrow> json \<Rightarrow> files \<Rightarrow> json_response \<times> files" where
  "post_write word_type entry dictionary fs =
     (case py_subscript dictionary word_type of
        Inl e \<Rightarrow> (Inl e, fs)
      | Inr lst \<Rightarrow>
          (case py_contains lst entry of
             Inl e \<Rightarrow> (Inl e, fs)
           | Inr True \<Rightarrow> (Inr (200, dictionary_ok_body dictionary), fs)
           | Inr False \<Rightarrow>
               (case py_append lst entry of
                  Inl e \<Rightarrow> (Inl e, fs)
                | Inr lst' \<Rightarrow>
                    (let dictionary' = json_set dictionary word_type lst'
                     in (Inr (200, dictionary_ok_body dictionary'), fs(dict_path \<mapsto> dictionary'))))))"

fun thread_step :: "post_thread \<Rightarrow> files \<Rightarrow> post_thread \<times> files" where
  "thread_step (Ready b) fs = (post_read b fs, fs)"
| "thread_step (Loaded t e d) fs = (case post_write t e d fs of (r, fs') \<Rightarrow> (Done r, fs'))"
| "thread_step (Done r) fs = (Done r, fs)"

fun run_sched :: "bool list \<Rightarrow> post_thread \<Rightarrow> post_thread \<Rightarrow> files \<Rightarrow> post_thread \<times> post_thread \<times> files" where
  "run_sched [] p q fs = (p, q, fs)"
| "run_sched (False # s) p q fs = (case thread_step p fs of (p', fs') \<Rightarrow> run_sched s p' q fs')"
| "run_sched (True # s) p q fs = (case thread_step q fs of (q', fs') \<Rightarrow> run_sched s p q' fs')"

lemma dict_entries_subscript:
  "py_subscript (load_dictionary fs) t = Inr (JArr xs) \<Longrightarrow> dict_entries fs t = List.map_filter entry_str xs"
  by (simp add: dict_entries_def)

lemma post_read_loads:
  "py_get data (str_lit ''type'') (str_lit ''words'') = t \<Longrightarrow> py_get data (str_lit ''entry'') [] = e \<Longrightarrow>
   e \<noteq> [] \<Longrightarrow> post_read (Some data) fs = Loaded t e (load_dictionary fs)"
  by (simp add: post_read_def Let_def)

lemma post_write_new:
  assumes "py_subscript d t = Inr (JArr xs)" and "JStr e \<notin> set xs"
  shows "post_write t e d fs =
    (Inr (200, dictionary_ok_body (json_set d t (JArr (xs @ [JStr e])))),
     fs(dict_path \<mapsto> json_set d t (JArr (xs @ [JStr e]))))"
  using assms by (simp add: post_write_def Let_def)

text \<open>
  C28. Lost update. Two POSTs of different new entries under the same key, when the
  second thread loads the file before the first has written it back (schedule: read,
  read, write, write), are both answered 200 \<open>success\<close>, yet the file keeps only the
  second entry: the first accepted entry is lost.
\<close>

theorem run_sched_lost_update:
  assumes ok: "dict_file_ok fs"
    and t1: "py_get d1 (str_lit ''type'') (str_lit ''words'') = t"
    and t2: "py_get d2 (str_lit ''type'') (str_lit ''words'') = t"
    and tk: "t \<in> {str_lit ''words'', str_lit ''phrases''}"
    and e1: "py_get d1 (str_lit ''entry'') [] = e1" and ne1: "e1 \<noteq> []"
    and e2: "py_get d2 (str_lit ''entry'') [] = e2" and ne2: "e2 \<noteq> []"
    and new: "e1 \<noteq> e2" "e1 \<notin> set (dict_entries fs t)" "e2 \<notin> set (dict_entries fs t)"
  shows "\<exists>j1 j2 fs'. run_sched [False, True, False, True] (Ready (Some d1)) (Ready (Some d2)) fs =
      (Done (Inr (200, j1)), Done (Inr (200, j2)), fs') \<and>
    dict_entries fs' t = dict_entries fs t @ [e2] \<and> e1 \<notin> set (dict_entries fs' t)"
proof -
  let ?D = "load_dictionary fs"
  obtain xs where sub: "py_subscript ?D t = Inr (JArr xs)"
    using wf_dictionary_subscript_key [OF load_dictionary_wf [OF ok] tk] by blast
  have Dt: "dict_entries fs t = List.map_filter entry_str xs"
    by (rule dict_entries_subscript [OF sub])
  have x1: "JStr e1 \<notin> set xs" and x2: "JStr e2 \<notin> set xs"
    using new by (simp_all add: Dt map_filter_entry_str_mem)
  let ?D2 = "json_set ?D t (JArr (xs @ [JStr e2]))"
  have run: "run_sched [False, True, False, True] (Ready (Some d1)) (Ready (Some d2)) fs =
      (Done (Inr (200, dictionary_ok_body (json_set ?D t (JArr (xs @ [JStr e1]))))),
       Done (Inr (200, dictionary_ok_body ?D2)), fs(dict_path \<mapsto> ?D2))"
    by (simp add: post_read_loads [OF t1 e1 ne1] post_read_loads [OF t2 e2 ne2]
        post_write_new [OF sub x1] post_write_new [OF sub x2])
  have "dict_entries (fs(dict_path \<mapsto> ?D2)) t = List.map_filter entry_str xs @ [e2]"
    by (simp add: dict_entries_def py_subscript_json_set [OF sub] List.map_filter_simps
        map_filter_append)
  with run new Dt show ?thesis by auto
qed

theorem run_sched_lost_update_witness:
  "dict_file_ok Map.empty \<and>
   py_get [str_lit ''entry'' \<mapsto> str_lit ''ciao''] (str_lit ''type'') (str_lit ''words'') = str_lit ''words'' \<and>
   py_get [str_lit ''entry'' \<mapsto> str_lit ''salve''] (str_lit ''type'') (str_lit ''words'') = str_lit ''words'' \<and>
   str_lit ''words'' \<in> {str_lit ''words'', str_lit ''phrases''} \<and>
   py_get [str_lit ''entry'' \<mapsto> str_lit ''ciao''] (str_lit ''entry'') [] = str_lit ''ciao'' \<and> str_lit ''ciao'' \<noteq> [] \<and>
   py_get [str_lit ''entry'' \<mapsto> str_lit ''salve''] (str_lit ''entry'') [] = str_lit ''salve'' \<and> str_lit ''salve'' \<noteq> [] \<and>
   str_lit ''ciao'' \<noteq> str_lit ''salve'' \<and>
   str_lit ''ciao'' \<notin> set (dict_entries Map.empty (str_lit ''words'')) \<and>
   str_lit ''salve'' \<notin> set (dict_entries Map.empty (str_lit ''words'')) \<and>
   (\<exists>j1 j2 fs'. run_sched [False, True, False, True] (Ready (Some [str_lit ''entry'' \<mapsto> str_lit ''ciao'']))
        (Ready (Some [str_lit ''entry'' \<mapsto> str_lit ''salve''])) Map.empty =
      (Done (Inr (200, j1)), Done (Inr (200, j2)), fs') \<and>
    dict_entries fs' (str_lit ''words'') = dict_entries Map.empty (str_lit ''words'') @ [str_lit ''salve''] \<and>
    str_lit ''ciao'' \<notin> set (dict_entries fs' (str_lit ''words'')))"
  using sample_posts_inputs run_sched_lost_update [OF sample_posts_inputs] by blast

end
