(* ===== verification/Spec2Isabelle.thy ===== *)
theory Spec2Isabelle
  imports Routes Interleaving
begin

text \<open>
  \<^bold>\<open>A verification development of facilescrivere (src/facilescrivere/app.py).\<close>

  The program is a Flask back end for Italian writing assistance. Its parts:
  \<^item> the suggestion engine, class \<open>GrammarChecker\<close> (lines 24--83): two static
    dictionaries built by \<open>__init__\<close> and the pure method \<open>check_text\<close>, which
    lower-cases the text, splits it on whitespace, cleans every word with
    \<open>re.sub(r'[^\w\']', '', word)\<close> and looks it up in both tables;
  \<^item> the template catalogue \<open>DOCUMENT_TEMPLATES\<close> (lines 89--219) and its routes
    \<open>get_templates\<close>/\<open>get_template\<close> (404 on an unknown id);
  \<^item> the PDF export, handler \<open>export_pdf\<close> (lines 284--336): a loop over the lines
    of the content that draws on a reportlab canvas, wraps lines longer than 80
    characters greedily and starts a new page when the cursor is below 50;
  \<^item> the handlers with state: \<open>save_document\<close> (a JSON file per document, named by a
    timestamp of one-second resolution) and \<open>user_dictionary\<close> (GET/POST on one JSON
    file of word and phrase lists), and \<open>check_grammar\<close> (400 on empty text, word and
    character counts) around the engine.
  The engines do not call each other; the handlers call them and share the store of
  the upload folder.

  \<^bold>\<open>Theories.\<close>
  \<^item> \<open>Py_Prelude\<close>: Python strings as lists of code points, \<open>str.split\<close>,
    \<open>str.split(sep)\<close>, \<open>str.strip\<close>, \<open>sep.join\<close>, \<open>str.lower\<close> and the
    regular-expression class \<open>\w\<close> over an interface to the Unicode database
    (record \<open>ucd\<close>, the facts \<open>ucd_wf\<close> the proofs use, the instance
    \<open>latin1_ucd\<close> that satisfies them), and the list lemmas the components share
    (named collections \<open>py_str_simps\<close>, \<open>py_eval\<close>).
  \<^item> \<open>Grammar_Checker\<close>: the record \<open>grammar_checker\<close> of the two tables, its value
    \<open>init_grammar_checker\<close> (the source's literals, code point by code point),
    \<open>re_clean\<close>, the loop body \<open>token_suggestions\<close> and \<open>check_text\<close>. C1--C6: the
    suggestions at each token position exactly, the correction table can never
    match, the exact trigger set of the real tables, at most two suggestions per
    word, positions ordered and below the word count, no suggestion on blank text.
  \<^item> \<open>Pdf_Export\<close>: canvas calls as a log of \<open>canvas_op\<close> in the record
    \<open>pdf_state\<close> with the cursor \<open>y_position\<close>; \<open>draw_line\<close>,
    \<open>new_page_if_needed\<close>, the inner loop \<open>wrap_loop\<close>, \<open>emit_line\<close>, the outer
    loop \<open>layout_lines\<close> and \<open>render_pdf\<close>. C7--C13: the inner loop equals the pure
    greedy wrap \<open>wrap_ref\<close>, wrapped lines are shorter than 80 characters (a single
    word excepted) and rejoin to the line, a long line without spaces is not split,
    the margin invariant for short lines and its failure for long ones (text at
    negative \<open>y\<close>), and the exact page count.
  \<^item> \<open>File_Store\<close>: JSON values (\<open>json\<close>), exceptions (\<open>py_exc\<close>), the store
    \<open>files\<close> (a map from a path to the JSON value of the file), the clock
    (\<open>datetime\<close>, \<open>strftime_id\<close>, \<open>isoformat\<close>), \<open>save_document\<close>,
    \<open>user_dictionary_get\<close> and \<open>user_dictionary_post\<close> with the Python semantics of
    \<open>in\<close>, \<open>append\<close> and subscripts. C14--C20: the POST refines the abstract
    \<open>dict_add\<close>, raises \<open>KeyError\<close> on an unknown key and is idempotent; saves in
    the same second overwrite each other, saves in different seconds do not, the id
    reads back as the clock (\<open>parse_doc_id\<close>), and a save never touches the
    dictionary.
  \<^item> \<open>Templates\<close>: the six texts (generated from the literal), \<open>template_catalogue\<close>,
    \<open>get_templates\<close>, \<open>get_template\<close>. C21: the two routes agree.
  \<^item> \<open>Routes\<close>: \<open>check_grammar\<close>, \<open>export_pdf\<close>, the datatypes \<open>request\<close> and
    \<open>response\<close>, the step function \<open>server_step\<close> over all routes, \<open>dispatch\<close>
    (the 16 MiB body limit of \<open>MAX_CONTENT_LENGTH\<close>, answer 413, in front of the
    POST handlers) and \<open>serve\<close>, a run of requests one after the other. C22--C27:
    save and POST commute, the frame of the PDF download, every JSON answer is an
    object with status 200/400/404, a run writes only the dictionary file and
    \<open>document_<id>.json\<close> files named by the clock and removes none, the counts
    stored by \<open>save_document\<close> equal those of \<open>check_grammar\<close>, and a
    whitespace-only text passes the emptiness guard.
  \<^item> \<open>Interleaving\<close>: the threaded development server of \<open>app.run\<close> on the dictionary
    POST, split at its file accesses into \<open>post_read\<close> and \<open>post_write\<close>; threads
    (\<open>post_thread\<close>) step by \<open>thread_step\<close> and two of them run under any schedule
    (\<open>run_sched\<close>). C28: the schedule read, read, write, write answers both POSTs
    with success and loses the first accepted entry.

  \<^bold>\<open>Bounds.\<close> No fuel is used: every loop of the program runs over a finite list
  (the words, the lines, the catalogue) and is a structural \<open>fun\<close> or a fold; the
  decimal printing \<open>dec_digits\<close> terminates by the measure \<open>n\<close>. Concurrency is
  modelled for two dictionary POSTs, the one handler that reads a file and writes it
  back; \<open>save_document\<close> only writes, and its same-second race is C17. The id
  roundtrip needs years 1000--9999 (\<open>valid_clock\<close>): \<open>%Y\<close> is not padded.

  \<^bold>\<open>Not modelled.\<close>
  \<^item> Request bodies are JSON objects with string values, the shape the front end
    sends. A client can send numbers, lists or objects as values: the dictionary
    POST then appends a non-string entry such as \<open>5\<close> to the file, and
    \<open>check_grammar\<close> raises on a non-string text at \<open>.lower()\<close> or answers 400 for
    a falsy one. These requests are outside the model, and the theorems say nothing
    about them. \<open>None\<close> is the body of a JSON \<open>null\<close>; before Flask 2.1 it is also
    the body of a request without JSON, which later versions refuse with 400 or 415.
  \<^item> \<open>str.lower\<close> maps one code point at a time; the context-dependent final
    sigma of CPython is not expressed (see \<open>Py_Prelude\<close>).
  \<^item> \<open>Flask(__name__)\<close>, \<open>CORS(app)\<close> (response headers) and \<open>SECRET_KEY\<close>
    (read by no handler) are framework set-up with no logic of the program; of the
    configuration, \<open>UPLOAD_FOLDER\<close> and \<open>MAX_CONTENT_LENGTH\<close> are modelled.
  \<^item> \<open>index\<close> renders an HTML template, modelled only as the catalogue it is given.
  \<^item> The text encodings of JSON files, HTTP answers and PDF bytes are library code: a
    file holds the JSON value \<open>json.load\<close> gives back, so a corrupt file is not
    modelled; the Unicode database is an interface with the facts the proofs need,
    instantiated by Latin-1.
\<close>

end
